theory Spec2Isabelle
  imports Complex_Main "HOL-Library.Word"
begin

section \<open>JavaScript values used by the services\<close>

text \<open>
  A JavaScript string is a sequence of 16-bit code units; \<open>length\<close> counts code units,
  as \<open>String.prototype.length\<close> does. Source literals are written through \<open>js\<close>.
\<close>

type_synonym jschar = "16 word"
type_synonym jsstring = "jschar list"

definition js :: "string \<Rightarrow> jsstring" where
  "js s = map (\<lambda>c. of_nat (of_char c)) s"

text \<open>
  A JavaScript number as far as \<open>clampInt\<close> looks at it: a finite value, \<open>NaN\<close> or one of
  the infinities. \<open>Math.floor\<close>, \<open>Math.min\<close> and \<open>Math.max\<close> are exact on finite values,
  so finite values are modelled by the reals they denote.
\<close>

datatype jsnum = Finite real | NaN | PosInfinity | NegInfinity

section \<open>String operations of the platform\<close>

text \<open>
  The set matched by \<open>\s\<close> in a regular expression and removed by \<open>trim\<close>/\<open>trimEnd\<close>:
  TAB, LF, VT, FF, CR, SPACE, NBSP, U+1680, U+2000..U+200A, LS, PS, U+202F, U+205F,
  U+3000 and U+FEFF.
\<close>

definition isWhiteSpace :: "jschar \<Rightarrow> bool" where
  "isWhiteSpace c \<longleftrightarrow>
     c = 0x09 \<or> c = 0x0A \<or> c = 0x0B \<or> c = 0x0C \<or> c = 0x0D \<or> c = 0x20 \<or> c = 0xA0 \<or>
     c = 0x1680 \<or> (0x2000 \<le> c \<and> c \<le> 0x200A) \<or> c = 0x2028 \<or> c = 0x2029 \<or>
     c = 0x202F \<or> c = 0x205F \<or> c = 0x3000 \<or> c = 0xFEFF"

definition trimStart :: "jsstring \<Rightarrow> jsstring" where
  "trimStart s = dropWhile isWhiteSpace s"

definition trimEnd :: "jsstring \<Rightarrow> jsstring" where
  "trimEnd s = rev (dropWhile isWhiteSpace (rev s))"

definition trim :: "jsstring \<Rightarrow> jsstring" where
  "trim s = trimEnd (trimStart s)"

text \<open>\<^verbatim>\<open>text.replace(/\s+/g, ' ')\<close>: every maximal run of white space becomes one space.\<close>

function collapseWhitespace :: "jsstring \<Rightarrow> jsstring" where
  "collapseWhitespace [] = []"
| "collapseWhitespace (c # cs) =
     (if isWhiteSpace c then 0x20 # collapseWhitespace (dropWhile isWhiteSpace cs)
      else c # collapseWhitespace cs)"
  by pat_completeness auto
termination
  by (relation "measure length") (auto simp: less_Suc_eq_le length_dropWhile_le)

text \<open>
  \<^verbatim>\<open>prefix.replace(/<[^>]*>/g, ' ')\<close>: scanning from the left, a \<open><\<close> that has a
  \<open>>\<close> somewhere after it starts a match that ends at the first such \<open>>\<close>; the match
  becomes one space and scanning resumes behind it. A \<open><\<close> with no \<open>>\<close> after it stays.
\<close>

function replaceTags :: "jsstring \<Rightarrow> jsstring" where
  "replaceTags [] = []"
| "replaceTags (c # cs) =
     (if c = 0x3C \<and> 0x3E \<in> set cs
      then 0x20 # replaceTags (drop 1 (dropWhile (\<lambda>d. d \<noteq> 0x3E) cs))
      else c # replaceTags cs)"
  by pat_completeness auto
termination
  by (relation "measure length")
     (auto simp: less_Suc_eq_le intro: le_trans [OF diff_le_self length_dropWhile_le])

text \<open>\<^verbatim>\<open>s.indexOf(m)\<close>: the least position at which \<open>m\<close> occurs, \<open>None\<close> for \<open>-1\<close>.\<close>

definition startsWith :: "jsstring \<Rightarrow> jsstring \<Rightarrow> bool" where
  "startsWith s p \<longleftrightarrow> take (length p) s = p"

fun indexOf :: "jsstring \<Rightarrow> jsstring \<Rightarrow> nat option" where
  "indexOf [] m = (if m = [] then Some 0 else None)"
| "indexOf (c # cs) m =
     (if startsWith (c # cs) m then Some 0 else map_option Suc (indexOf cs m))"

text \<open>\<^verbatim>\<open>lines.join(sep)\<close>\<close>

fun join :: "jsstring \<Rightarrow> jsstring list \<Rightarrow> jsstring" where
  "join sep [] = []"
| "join sep [l] = l"
| "join sep (l # ls) = l @ sep @ join sep ls"

section \<open>Reply guardrail (reply.validation)\<close>

datatype DraftFormat = plain | html

datatype error = Error jsstring

definition marker :: jsstring where
  "marker = js ''Did you know? Space Edition!''"

definition missingReplyBodyHtml :: error where
  "missingReplyBodyHtml = Error (
     js ''replyBody appears to contain only the Space Edition section. '' @
     js ''Write the email reply FIRST, then append the Space Edition block after it '' @
     js ''(use format='' @ [0x22] @ js ''html'' @ [0x22] @ js '' if embedding the image).'')"

definition missingReplyBodyPlain :: error where
  "missingReplyBodyPlain = Error (
     js ''replyBody appears to contain only the Space Edition section. '' @
     js ''Write the email reply FIRST, then append the Space Edition block after it.'')"

text \<open>
  \<^verbatim>\<open>const idx = replyBody.indexOf(marker);
  if (idx === -1) return;
  const prefix = replyBody.slice(0, idx);
  if (format === 'html') {
    const prefixText = prefix.replace(/<[^>]*>/g, ' ').replace(/\s+/g, ' ').trim();
    if (prefixText.length === 0) throw new Error(...);
    return;
  }
  if (prefix.trim().length === 0) throw new Error(...);\<close>
\<close>

definition assertReplyBodyHasMainReplyBeforeSpaceEdition ::
  "jsstring \<Rightarrow> DraftFormat \<Rightarrow> error + unit" where
  "assertReplyBodyHasMainReplyBeforeSpaceEdition replyBody format =
     (case indexOf replyBody marker of
        None \<Rightarrow> Inr ()
      | Some idx \<Rightarrow>
          (let prefix = take idx replyBody in
           if format = html then
             (let prefixText = trim (collapseWhitespace (replaceTags prefix)) in
              if length prefixText = 0 then Inl missingReplyBodyHtml else Inr ())
           else if length (trim prefix) = 0 then Inl missingReplyBodyPlain
           else Inr ()))"

text \<open>
  The contract of the guardrail is stated with these notions. \<open>occursAt m s i\<close>: the
  string \<open>m\<close> stands in \<open>s\<close> at position \<open>i\<close>. \<open>stripTags\<close> follows the specification's
  words: tag-like substrings are removed (the source puts a space in their place).
  \<open>blankPrefix\<close>: the prefix is empty after the processing of its format.
  \<open>MissingReplyBodyError\<close>: the error the guardrail raises for a format.
\<close>

definition occursAt :: "jsstring \<Rightarrow> jsstring \<Rightarrow> nat \<Rightarrow> bool" where
  "occursAt m s i \<longleftrightarrow> i + length m \<le> length s \<and> take (length m) (drop i s) = m"

function stripTags :: "jsstring \<Rightarrow> jsstring" where
  "stripTags [] = []"
| "stripTags (c # cs) =
     (if c = 0x3C \<and> 0x3E \<in> set cs
      then stripTags (drop 1 (dropWhile (\<lambda>d. d \<noteq> 0x3E) cs))
      else c # stripTags cs)"
  by pat_completeness auto
termination
  by (relation "measure length")
     (auto simp: less_Suc_eq_le intro: le_trans [OF diff_le_self length_dropWhile_le])

definition blankPrefix :: "DraftFormat \<Rightarrow> jsstring \<Rightarrow> bool" where
  "blankPrefix format p =
     (case format of
        plain \<Rightarrow> trim p = []
      | html \<Rightarrow> trim (collapseWhitespace (stripTags p)) = [])"

definition MissingReplyBodyError :: "DraftFormat \<Rightarrow> error" where
  "MissingReplyBodyError format =
     (case format of plain \<Rightarrow> missingReplyBodyPlain | html \<Rightarrow> missingReplyBodyHtml)"

section \<open>APODService: clampInt\<close>

text \<open>
  \<^verbatim>\<open>if (!Number.isFinite(value)) return min;
  const v = Math.floor(value);
  return Math.max(min, Math.min(max, v));\<close>
\<close>

fun isFinite :: "jsnum \<Rightarrow> bool" where
  "isFinite (Finite x) = True"
| "isFinite NaN = False"
| "isFinite PosInfinity = False"
| "isFinite NegInfinity = False"

fun clampInt :: "jsnum \<Rightarrow> int \<Rightarrow> int \<Rightarrow> int" where
  "clampInt (Finite x) mn mx = max mn (min mx \<lfloor>x\<rfloor>)"
| "clampInt NaN mn mx = mn"
| "clampInt PosInfinity mn mx = mn"
| "clampInt NegInfinity mn mx = mn"

text \<open>
  \<^verbatim>\<open>const maxDaysBack = this.clampInt(options?.maxDaysBack ?? 10, 0, 30);\<close>
  The option is \<open>None\<close> when \<open>options\<close> or its \<open>maxDaysBack\<close> is missing.
\<close>

definition effectiveMaxDaysBack :: "jsnum option \<Rightarrow> int" where
  "effectiveMaxDaysBack mdb =
     clampInt (case mdb of None \<Rightarrow> Finite 10 | Some v \<Rightarrow> v) 0 30"


section \<open>Numbers and dates of the platform\<close>

text \<open>\<open>String(n)\<close> for an integer \<open>n\<close>: its decimal digits, with a sign when negative.\<close>

function showNat :: "nat \<Rightarrow> jsstring" where
  "showNat n = (if n < 10 then [0x30 + of_nat n] else showNat (n div 10) @ [0x30 + of_nat (n mod 10)])"
  by pat_completeness auto
termination
  by (relation "measure id") auto

definition showInt :: "int \<Rightarrow> jsstring" where
  "showInt i = (if i < 0 then 0x2D # showNat (nat (- i)) else showNat (nat i))"

text \<open>\<^verbatim>\<open>s.padStart(2, '0')\<close>\<close>

definition padStart2 :: "jsstring \<Rightarrow> jsstring" where
  "padStart2 s = replicate (2 - length s) 0x30 @ s"

text \<open>\<^verbatim>\<open>s.slice(a, b)\<close> for \<open>0 \<le> a \<le> b\<close>\<close>

definition slice :: "jsstring \<Rightarrow> nat \<Rightarrow> nat \<Rightarrow> jsstring" where
  "slice s a b = take (b - a) (drop a s)"

text \<open>
  A \<open>Date\<close> object is its time value: milliseconds since the epoch, or \<open>NaN\<close> for an
  invalid date (\<open>None\<close>). Time values are kept within 8.64e15 ms of the epoch
  (\<open>TimeClip\<close>). The UTC calendar fields are those of the proleptic Gregorian calendar,
  computed from the day number \<open>t div msPerDay\<close>.
\<close>

type_synonym date = "int option"

definition msPerDay :: int where
  "msPerDay = 86400000"

definition timeClip :: "int \<Rightarrow> date" where
  "timeClip t = (if \<bar>t\<bar> \<le> 8640000000000000 then Some t else None)"

definition civilFromDays :: "int \<Rightarrow> int \<times> int \<times> int" where
  "civilFromDays z0 =
     (let z = z0 + 719468;
          era = z div 146097;
          doe = z - era * 146097;
          yoe = (doe - doe div 1460 + doe div 36524 - doe div 146096) div 365;
          doy = doe - (365 * yoe + yoe div 4 - yoe div 100);
          mp = (5 * doy + 2) div 153;
          d = doy - (153 * mp + 2) div 5 + 1;
          m = (if mp < 10 then mp + 3 else mp - 9);
          y = yoe + era * 400 + (if m \<le> 2 then 1 else 0)
      in (y, m, d))"

definition daysFromCivil :: "int \<Rightarrow> int \<Rightarrow> int \<Rightarrow> int" where
  "daysFromCivil y0 m d =
     (let y = (if m \<le> 2 then y0 - 1 else y0);
          era = y div 400;
          yoe = y - era * 400;
          doy = (153 * (if m > 2 then m - 3 else m + 9) + 2) div 5 + d - 1;
          doe = yoe * 365 + yoe div 4 - yoe div 100 + doy
      in era * 146097 + doe - 719468)"

text \<open>\<open>getUTCFullYear\<close>, \<open>getUTCMonth\<close> (0 to 11) and \<open>getUTCDate\<close> of a valid time value.\<close>

definition getUTCFullYear :: "int \<Rightarrow> int" where
  "getUTCFullYear t = fst (civilFromDays (t div msPerDay))"

definition getUTCMonth :: "int \<Rightarrow> int" where
  "getUTCMonth t = fst (snd (civilFromDays (t div msPerDay))) - 1"

definition getUTCDate :: "int \<Rightarrow> int" where
  "getUTCDate t = snd (snd (civilFromDays (t div msPerDay)))"

text \<open>
  \<^verbatim>\<open>const copy = new Date(d.getTime());
  copy.setUTCDate(copy.getUTCDate() + days);
  return copy;\<close>
  \<open>setUTCDate\<close> keeps the time within the day and moves the day number by the
  difference between the new and the old day of the month, here \<open>days\<close>; the result is
  clipped. An invalid date stays invalid.
\<close>

definition addDaysUTC :: "date \<Rightarrow> int \<Rightarrow> date" where
  "addDaysUTC d days = (case d of None \<Rightarrow> None | Some t \<Rightarrow> timeClip (t + days * msPerDay))"

text \<open>
  \<^verbatim>\<open>const yyyy = d.getUTCFullYear();
  const mm = String(d.getUTCMonth() + 1).padStart(2, '0');
  const dd = String(d.getUTCDate()).padStart(2, '0');
  return `${yyyy}-${mm}-${dd}`;\<close>
  On an invalid date every getter is \<open>NaN\<close>, and the result is \<open>NaN-NaN-NaN\<close>.
\<close>

definition formatDateUTC :: "date \<Rightarrow> jsstring" where
  "formatDateUTC d =
     (case d of
        None \<Rightarrow> js ''NaN-NaN-NaN''
      | Some t \<Rightarrow>
          (let yyyy = getUTCFullYear t;
               mm = padStart2 (showInt (getUTCMonth t + 1));
               dd = padStart2 (showInt (getUTCDate t))
           in showInt yyyy @ js ''-'' @ mm @ js ''-'' @ dd))"

section \<open>GmailService\<close>

text \<open>
  Messages as the Gmail client hands them over. A header may lack its name or its value;
  a message may lack its snippet, its payload, and the payload its headers. The ids are
  read through non-null assertions in the source and are strings here.
\<close>

record MessagePartHeader =
  h_name :: "jsstring option"
  h_value :: "jsstring option"

record MessagePart =
  part_headers :: "MessagePartHeader list option"

record Message =
  msg_id :: jsstring
  msg_threadId :: jsstring
  msg_snippet :: "jsstring option"
  msg_payload :: "MessagePart option"

datatype messageFormat = Metadata | Full

text \<open>
  The client: \<open>messages_list\<close> is the outcome of listing with the query \<open>is:unread\<close> (the
  \<open>messages\<close> field of the answer, which may be missing), \<open>messages_get id format\<close> the
  outcome of getting a message, \<open>drafts_create threadId raw\<close> the outcome of creating a
  draft (the id of the draft). A rejected promise is an error on the left. When several
  requests issued together are rejected, \<open>first_rejection\<close> tells which rejection arrives
  first: it is given the rejections in the order of the requests and returns one of them.
\<close>

record gmail =
  messages_list :: "error + Message list option"
  messages_get :: "jsstring \<Rightarrow> messageFormat \<Rightarrow> error + Message"
  drafts_create :: "jsstring \<Rightarrow> jsstring \<Rightarrow> error + jsstring"
  first_rejection :: "error list \<Rightarrow> error"

datatype call =
    ListCall
  | GetCall jsstring messageFormat
  | CreateDraftCall jsstring jsstring

record UnreadEmailSummary =
  sender :: jsstring
  subject :: jsstring
  body :: jsstring
  emailId :: jsstring
  threadId :: jsstring

text \<open>\<^verbatim>\<open>msg.payload?.headers || []\<close>\<close>

definition headersOf :: "Message \<Rightarrow> MessagePartHeader list" where
  "headersOf msg =
     (case msg_payload msg of
        None \<Rightarrow> []
      | Some p \<Rightarrow> (case part_headers p of None \<Rightarrow> [] | Some hs \<Rightarrow> hs))"

text \<open>\<^verbatim>\<open>headers.find((h) => h.name === n)?.value || ''\<close>\<close>

definition headerValue :: "jsstring \<Rightarrow> MessagePartHeader list \<Rightarrow> jsstring" where
  "headerValue n hs =
     (case find (\<lambda>h. h_name h = Some n) hs of
        None \<Rightarrow> []
      | Some h \<Rightarrow> (case h_value h of None \<Rightarrow> [] | Some v \<Rightarrow> v))"

text \<open>
  The body of the \<open>map\<close> callback of \<open>getUnreadEmails\<close>, behind its \<open>await\<close>:
  \<^verbatim>\<open>const fromHeader = headers.find((h) => h.name === 'From')?.value || '';
  const subjectHeader = headers.find((h) => h.name === 'Subject')?.value || '';
  const body = msg.snippet || '';
  return { sender: fromHeader, subject: subjectHeader, body: body,
           emailId: msg.id!, threadId: msg.threadId! };\<close>
\<close>

definition toSummary :: "Message \<Rightarrow> UnreadEmailSummary" where
  "toSummary msg =
     (let headers = headersOf msg;
          fromHeader = headerValue (js ''From'') headers;
          subjectHeader = headerValue (js ''Subject'') headers;
          snippet = (case msg_snippet msg of None \<Rightarrow> [] | Some s \<Rightarrow> s)
      in \<lparr> sender = fromHeader, subject = subjectHeader, body = snippet,
           emailId = msg_id msg, threadId = msg_threadId msg \<rparr>)"

text \<open>
  \<open>Promise.all\<close>: the results in the order of the promises when all are fulfilled;
  otherwise the rejection that arrives first among those of the rejected promises.
\<close>

definition promiseAll :: "(error list \<Rightarrow> error) \<Rightarrow> (error + 'a) list \<Rightarrow> error + 'a list" where
  "promiseAll firstRejection ps =
     (case filter isl ps of
        [] \<Rightarrow> Inr (map projr ps)
      | r # rs \<Rightarrow> Inl (firstRejection (map projl (r # rs))))"

text \<open>
  \<^verbatim>\<open>const listResponse = await this.gmail.users.messages.list({ userId: 'me', q: 'is:unread' });
  const messages = listResponse.data.messages || [];
  if (messages.length === 0) return [];
  const emailPromises = messages.map(async (message) => {
    const messageResponse = await this.gmail.users.messages.get({ userId: 'me',
      id: message.id!, format: 'metadata', metadataHeaders: ['From', 'Subject'] });
    ... });
  return Promise.all(emailPromises);\<close>
\<close>

definition getUnreadEmails :: "gmail \<Rightarrow> error + UnreadEmailSummary list" where
  "getUnreadEmails G =
     (case messages_list G of
        Inl e \<Rightarrow> Inl e
      | Inr listed \<Rightarrow>
          (let messages = (case listed of None \<Rightarrow> [] | Some ms \<Rightarrow> ms) in
           if length messages = 0 then Inr []
           else promiseAll (first_rejection G)
                  (map (\<lambda>message.
                          case messages_get G (msg_id message) Metadata of
                            Inl e \<Rightarrow> Inl e
                          | Inr msg \<Rightarrow> Inr (toSummary msg))
                       messages)))"

text \<open>
  \<open>listedMessages G\<close> is the listing the provider gives, and \<open>fetchedMessage G m\<close> the
  message it gives for the id of the listed message \<open>m\<close>.
\<close>

definition listedMessages :: "gmail \<Rightarrow> Message list" where
  "listedMessages G = (case messages_list G of Inr (Some ms) \<Rightarrow> ms | _ \<Rightarrow> [])"

definition fetchedMessage :: "gmail \<Rightarrow> Message \<Rightarrow> Message" where
  "fetchedMessage G m = projr (messages_get G (msg_id m) Metadata)"

subsection \<open>createDraftReply\<close>

text \<open>
  \<^verbatim>\<open>fromHeader.match(/<(.+)>/)?.[1]\<close>: the match starts at the leftmost \<open><\<close> for which
  it can succeed. Behind that \<open><\<close>, \<open>.+\<close> takes characters other than line terminators
  (LF, CR, LS, PS), at least one and as many as possible, such that a \<open>>\<close> follows;
  group 1 is what \<open>.+\<close> took. \<open>None\<close> when there is no match.
\<close>

definition isLineTerminator :: "jschar \<Rightarrow> bool" where
  "isLineTerminator c \<longleftrightarrow> c = 0x0A \<or> c = 0x0D \<or> c = 0x2028 \<or> c = 0x2029"

definition angleGroupAt :: "jsstring \<Rightarrow> jsstring option" where
  "angleGroupAt cs =
     (let run = takeWhile (\<lambda>c. \<not> isLineTerminator c) cs
      in if 0x3E \<in> set (drop 1 run)
         then Some (take 1 run @ rev (drop 1 (dropWhile (\<lambda>c. c \<noteq> 0x3E) (rev (drop 1 run)))))
         else None)"

fun matchAngle :: "jsstring \<Rightarrow> jsstring option" where
  "matchAngle [] = None"
| "matchAngle (c # cs) =
     (if c = 0x3C then (case angleGroupAt cs of Some g \<Rightarrow> Some g | None \<Rightarrow> matchAngle cs)
      else matchAngle cs)"

text \<open>
  \<^verbatim>\<open>const toEmail = fromHeader.includes('<')
    ? fromHeader.match(/<(.+)>/)?.[1] || fromHeader
    : fromHeader;\<close>
\<close>

definition toEmail :: "jsstring \<Rightarrow> jsstring" where
  "toEmail fromHeader =
     (if 0x3C \<in> set fromHeader then
        (case matchAngle fromHeader of
           Some g \<Rightarrow> (if g \<noteq> [] then g else fromHeader)
         | None \<Rightarrow> fromHeader)
      else fromHeader)"

text \<open>
  \<^verbatim>\<open>const replySubject = subjectHeader.startsWith('Re: ') ? subjectHeader : `Re: ${subjectHeader}`;\<close>
\<close>

definition replySubject :: "jsstring \<Rightarrow> jsstring" where
  "replySubject subjectHeader =
     (if startsWith subjectHeader (js ''Re: '') then subjectHeader else js ''Re: '' @ subjectHeader)"

text \<open>
  \<^verbatim>\<open>emailLines.push(`To: ${toEmail}`);
  emailLines.push(`Subject: ${replySubject}`);
  if (messageIdHeader) {
    emailLines.push(`In-Reply-To: ${messageIdHeader}`);
    emailLines.push(`References: ${messageIdHeader}`);
  }
  emailLines.push('Content-Type: text/plain; charset=utf-8');
  emailLines.push('');
  emailLines.push(replyBody);
  const rawEmail = emailLines.join('\r\n');\<close>
  \<open>headerLines\<close> is the array before the empty line is pushed.
\<close>

definition headerLines :: "MessagePartHeader list \<Rightarrow> jsstring list" where
  "headerLines headers =
     (let fromHeader = headerValue (js ''From'') headers;
          subjectHeader = headerValue (js ''Subject'') headers;
          messageIdHeader = headerValue (js ''Message-ID'') headers
      in [js ''To: '' @ toEmail fromHeader, js ''Subject: '' @ replySubject subjectHeader]
         @ (if messageIdHeader \<noteq> []
            then [js ''In-Reply-To: '' @ messageIdHeader, js ''References: '' @ messageIdHeader]
            else [])
         @ [js ''Content-Type: text/plain; charset=utf-8''])"

definition emailLines :: "MessagePartHeader list \<Rightarrow> jsstring \<Rightarrow> jsstring list" where
  "emailLines headers replyBody = headerLines headers @ [[], replyBody]"

definition CRLF :: jsstring where
  "CRLF = [0x0D, 0x0A]"

definition rawEmail :: "MessagePartHeader list \<Rightarrow> jsstring \<Rightarrow> jsstring" where
  "rawEmail headers replyBody = join CRLF (emailLines headers replyBody)"

text \<open>
  \<open>Buffer.from(rawEmail)\<close>: the UTF-8 encoding of the string. A surrogate pair is one
  code point of four bytes; a surrogate without its partner becomes U+FFFD.
\<close>

type_synonym byte = "8 word"

definition isHighSurrogate :: "jschar \<Rightarrow> bool" where
  "isHighSurrogate c \<longleftrightarrow> 0xD800 \<le> c \<and> c \<le> 0xDBFF"

definition isLowSurrogate :: "jschar \<Rightarrow> bool" where
  "isLowSurrogate c \<longleftrightarrow> 0xDC00 \<le> c \<and> c \<le> 0xDFFF"

definition utf8Unit :: "jschar \<Rightarrow> byte list" where
  "utf8Unit c =
     (let n = unat c in
      if n < 0x80 then [of_nat n]
      else if n < 0x800 then [of_nat (0xC0 + n div 64), of_nat (0x80 + n mod 64)]
      else if isHighSurrogate c \<or> isLowSurrogate c then [0xEF, 0xBF, 0xBD]
      else [of_nat (0xE0 + n div 4096), of_nat (0x80 + n div 64 mod 64), of_nat (0x80 + n mod 64)])"

definition utf8Pair :: "jschar \<Rightarrow> jschar \<Rightarrow> byte list" where
  "utf8Pair c d =
     (let n = 0x10000 + (unat c - 0xD800) * 0x400 + (unat d - 0xDC00) in
      [of_nat (0xF0 + n div 262144), of_nat (0x80 + n div 4096 mod 64),
       of_nat (0x80 + n div 64 mod 64), of_nat (0x80 + n mod 64)])"

fun utf8 :: "jsstring \<Rightarrow> byte list" where
  "utf8 [] = []"
| "utf8 [c] = utf8Unit c"
| "utf8 (c # d # cs) =
     (if isHighSurrogate c \<and> isLowSurrogate d then utf8Pair c d @ utf8 cs
      else utf8Unit c @ utf8 (d # cs))"

text \<open>
  \<open>buffer.toString('base64')\<close>: three bytes give four characters of the alphabet; a
  rest of one or two bytes gives two or three characters and \<open>=\<close> padding up to four.
\<close>

definition base64Char :: "nat \<Rightarrow> jschar" where
  \<comment> \<open>the alphabet \<open>A\<close> to \<open>Z\<close>, \<open>a\<close> to \<open>z\<close>, \<open>0\<close> to \<open>9\<close>, \<open>+\<close>, \<open>/\<close> by character code\<close>
  "base64Char n =
     of_nat (if n < 26 then n + 65 else if n < 52 then n + 71 else if n < 62 then n - 4
             else if n = 62 then 43 else 47)"

fun base64 :: "byte list \<Rightarrow> jsstring" where
  "base64 [] = []"
| "base64 [a] =
     (let n = unat a * 65536
      in [base64Char (n div 262144), base64Char (n div 4096 mod 64), 0x3D, 0x3D])"
| "base64 [a, b] =
     (let n = unat a * 65536 + unat b * 256
      in [base64Char (n div 262144), base64Char (n div 4096 mod 64),
          base64Char (n div 64 mod 64), 0x3D])"
| "base64 (a # b # c # bs) =
     (let n = unat a * 65536 + unat b * 256 + unat c
      in [base64Char (n div 262144), base64Char (n div 4096 mod 64),
          base64Char (n div 64 mod 64), base64Char (n mod 64)] @ base64 bs)"

text \<open>
  \<^verbatim>\<open>const encodedEmail = Buffer.from(rawEmail).toString('base64')
    .replace(/\+/g, '-').replace(/\//g, '_').replace(/=+$/, '');\<close>
\<close>

definition replaceChar :: "jschar \<Rightarrow> jschar \<Rightarrow> jsstring \<Rightarrow> jsstring" where
  "replaceChar x y s = map (\<lambda>c. if c = x then y else c) s"

definition stripPadding :: "jsstring \<Rightarrow> jsstring" where
  "stripPadding s = rev (dropWhile (\<lambda>c. c = 0x3D) (rev s))"

definition base64url :: "byte list \<Rightarrow> jsstring" where
  "base64url bs = stripPadding (replaceChar 0x2F 0x5F (replaceChar 0x2B 0x2D (base64 bs)))"

definition encodedEmail :: "MessagePartHeader list \<Rightarrow> jsstring \<Rightarrow> jsstring" where
  "encodedEmail headers replyBody = base64url (utf8 (rawEmail headers replyBody))"

text \<open>
  \<^verbatim>\<open>const originalMessage = await this.gmail.users.messages.get({ userId: 'me', id: emailId,
    format: 'full' });
  ...
  const draftResponse = await this.gmail.users.drafts.create({ userId: 'me',
    requestBody: { message: { threadId: threadId, raw: encodedEmail } } });
  return { draftId: draftResponse.data.id!, threadId: threadId };\<close>
  The result comes with the calls made to the provider, in order.
\<close>

record DraftReplyResult =
  draftId :: jsstring
  draft_threadId :: jsstring

definition createDraftReply ::
  "gmail \<Rightarrow> jsstring \<Rightarrow> jsstring \<Rightarrow> (error + DraftReplyResult) \<times> call list" where
  "createDraftReply G eid replyBody =
     (case messages_get G eid Full of
        Inl e \<Rightarrow> (Inl e, [GetCall eid Full])
      | Inr msg \<Rightarrow>
          (let headers = headersOf msg;
               tid = msg_threadId msg;
               raw = encodedEmail headers replyBody
           in (case drafts_create G tid raw of
                 Inl e \<Rightarrow> Inl e
               | Inr did \<Rightarrow> Inr \<lparr> draftId = did, draft_threadId = tid \<rparr>,
               [GetCall eid Full, CreateDraftCall tid raw])))"

text \<open>
  Reading the serialized message back: \<open>splitLines s\<close> are the lines of \<open>s\<close>, which end at
  each CRLF (\<^verbatim>\<open>s.split('\r\n')\<close>).
\<close>

fun splitLines :: "jsstring \<Rightarrow> jsstring list" where
  "splitLines [] = [[]]"
| "splitLines [c] = [[c]]"
| "splitLines (c # d # cs) =
     (if c = 0x0D \<and> d = 0x0A then [] # splitLines cs
      else (case splitLines (d # cs) of l # ls \<Rightarrow> (c # l) # ls | [] \<Rightarrow> [[c]]))"


subsection \<open>Decoding, and a provider for the examples\<close>







text \<open>
  A provider with two unread messages: the first has \<open>From\<close>, \<open>Subject\<close> and
  \<open>Message-ID\<close> headers, the second only a \<open>Subject\<close>.
\<close>

definition header :: "string \<Rightarrow> string \<Rightarrow> MessagePartHeader" where
  "header n v = \<lparr> h_name = Some (js n), h_value = Some (js v) \<rparr>"

definition exampleMessage1 :: Message where
  "exampleMessage1 =
     \<lparr> msg_id = js ''msg1'', msg_threadId = js ''thread1'',
       msg_snippet = Some (js ''This is a test email snippet...''),
       msg_payload = Some \<lparr> part_headers = Some
         [header ''From'' ''sender@example.com'', header ''Subject'' ''Test Subject 1'',
          header ''Message-ID'' ''<original-message-id>''] \<rparr> \<rparr>"

definition exampleMessage2 :: Message where
  "exampleMessage2 =
     \<lparr> msg_id = js ''msg2'', msg_threadId = js ''thread2'', msg_snippet = None,
       msg_payload = Some \<lparr> part_headers = Some [header ''Subject'' ''Re: Hello''] \<rparr> \<rparr>"

definition exampleGet :: "jsstring \<Rightarrow> messageFormat \<Rightarrow> error + Message" where
  "exampleGet i f =
     (if i = js ''msg1'' then Inr exampleMessage1
      else if i = js ''msg2'' then Inr exampleMessage2
      else Inl (Error (js ''Message not found'')))"

definition exampleCreate :: "jsstring \<Rightarrow> jsstring \<Rightarrow> error + jsstring" where
  "exampleCreate t r = Inr (js ''draft1'')"

definition exampleFirst :: "error list \<Rightarrow> error" where
  "exampleFirst es = (case es of [] \<Rightarrow> Error [] | e # _ \<Rightarrow> e)"

definition exampleGmail :: gmail where
  "exampleGmail =
     \<lparr> messages_list = Inr (Some
         [\<lparr> msg_id = js ''msg1'', msg_threadId = js ''thread1'', msg_snippet = None, msg_payload = None \<rparr>,
          \<lparr> msg_id = js ''msg2'', msg_threadId = js ''thread2'', msg_snippet = None, msg_payload = None \<rparr>]),
       messages_get = exampleGet,
       drafts_create = exampleCreate,
       first_rejection = exampleFirst \<rparr>"

section \<open>The create_draft_reply tool (index.ts)\<close>

text \<open>
  The arguments of a tool call: the object may be missing, and so may each of its
  fields. The handler of the tool:
  \<^verbatim>\<open>const { emailId, replyBody } = (args ?? {}) as { emailId?: string; replyBody?: string };
  if (!emailId || !replyBody) {
    throw new Error('emailId and replyBody are required');
  }
  const result = await gmailService.createDraftReply(emailId, replyBody);
  return { success: true, draftId: result.draftId, threadId: result.threadId,
           message: 'Draft reply created successfully' };\<close>
\<close>

record draftArgs =
  arg_emailId :: "jsstring option"
  arg_replyBody :: "jsstring option"

record draftToolResult =
  success :: bool
  result_draftId :: jsstring
  result_threadId :: jsstring
  message :: jsstring

definition requiredError :: error where
  "requiredError = Error (js ''emailId and replyBody are required'')"

definition createDraftReplyHandler ::
  "gmail \<Rightarrow> draftArgs option \<Rightarrow> (error + draftToolResult) \<times> call list" where
  "createDraftReplyHandler G args =
     (let a = (case args of None \<Rightarrow> \<lparr> arg_emailId = None, arg_replyBody = None \<rparr> | Some x \<Rightarrow> x) in
      case (arg_emailId a, arg_replyBody a) of
        (Some eid, Some rb) \<Rightarrow>
          (if eid = [] \<or> rb = [] then (Inl requiredError, [])
           else (case createDraftReply G eid rb of
                   (Inl e, calls) \<Rightarrow> (Inl e, calls)
                 | (Inr r, calls) \<Rightarrow>
                     (Inr \<lparr> success = True, result_draftId = draftId r,
                            result_threadId = draft_threadId r,
                            message = js ''Draft reply created successfully'' \<rparr>, calls)))
      | _ \<Rightarrow> (Inl requiredError, []))"

text \<open>
  The request handler around it turns a thrown error into an error payload:
  \<^verbatim>\<open>try { ... const result = await handler(args); return createMCPResponse(result); }
  catch (error) {
    const errorMessage = error instanceof Error ? error.message : String(error);
    return createMCPResponse({ error: errorMessage }, true);
  }\<close>
\<close>

datatype 'a mcpResponse = Content 'a | ErrorContent jsstring

definition callCreateDraftReply ::
  "gmail \<Rightarrow> draftArgs option \<Rightarrow> draftToolResult mcpResponse \<times> call list" where
  "callCreateDraftReply G args =
     (case createDraftReplyHandler G args of
        (Inr r, calls) \<Rightarrow> (Content r, calls)
      | (Inl (Error m), calls) \<Rightarrow> (ErrorContent m, calls))"

text \<open>
  The earlier \<open>registerTools\<close> has the same check in the \<open>create_draft_reply\<close> case of its
  \<open>switch\<close>, but destructures \<open>args\<close> as it comes:
  \<^verbatim>\<open>const { emailId, replyBody } = args as { emailId: string; replyBody: string };\<close>
  so that a call without an arguments object throws a \<open>TypeError\<close> there (its message is
  the platform's), which the same \<open>catch\<close> turns into an error payload.
\<close>

definition destructureTypeError :: error where
  "destructureTypeError =
     Error (js ''Cannot destructure property '' @ [0x27] @ js ''emailId'' @ [0x27] @ js '' of '' @
            [0x27] @ js ''args'' @ [0x27] @ js '' as it is undefined.'')"

definition createDraftReplyCase ::
  "gmail \<Rightarrow> draftArgs option \<Rightarrow> (error + draftToolResult) \<times> call list" where
  "createDraftReplyCase G args =
     (case args of
        None \<Rightarrow> (Inl destructureTypeError, [])
      | Some a \<Rightarrow>
          (case (arg_emailId a, arg_replyBody a) of
             (Some eid, Some rb) \<Rightarrow>
               (if eid = [] \<or> rb = [] then (Inl requiredError, [])
                else (case createDraftReply G eid rb of
                        (Inl e, calls) \<Rightarrow> (Inl e, calls)
                      | (Inr r, calls) \<Rightarrow>
                          (Inr \<lparr> success = True, result_draftId = draftId r,
                                 result_threadId = draft_threadId r,
                                 message = js ''Draft reply created successfully'' \<rparr>, calls)))
           | _ \<Rightarrow> (Inl requiredError, [])))"

section \<open>The platform seen by the APOD service\<close>

text \<open>
  The JSON body of an APOD answer as received: a field that is missing (or \<open>null\<close>) is
  \<open>None\<close>. \<open>ApodApiResponse\<close> is the same data once \<open>fetchApod\<close> has checked that
  \<open>date\<close>, \<open>title\<close>, \<open>explanation\<close> and \<open>url\<close> are there.
\<close>

record ApodJson =
  json_date :: "jsstring option"
  json_explanation :: "jsstring option"
  json_media_type :: "jsstring option"
  json_title :: "jsstring option"
  json_url :: "jsstring option"
  json_hdurl :: "jsstring option"
  json_copyright :: "jsstring option"

record ApodApiResponse =
  apod_date :: jsstring
  apod_explanation :: jsstring
  apod_media_type :: "jsstring option"
  apod_title :: jsstring
  apod_url :: jsstring
  apod_hdurl :: "jsstring option"
  apod_copyright :: "jsstring option"

text \<open>
  What one call of \<open>fetch\<close> can do: reject (the string is the reason the \<open>catch\<close> block
  reads); answer with \<open>ok\<close> false, a status and a body text (\<open>None\<close> when \<open>text()\<close>
  rejects); answer with \<open>ok\<close> true and a body that \<open>json()\<close> rejects; answer with
  \<open>ok\<close> true and a JSON value (\<open>None\<close> when it is \<open>null\<close> or no object).
\<close>

datatype response =
    FetchRejected jsstring
  | NotOk int "jsstring option"
  | JsonRejected jsstring
  | Json "ApodJson option"

text \<open>
  \<open>dateCtor s\<close> is the time value of \<open>new Date(s)\<close>, \<open>clock\<close> the time value of
  \<open>new Date()\<close>, and \<open>fetch k q\<close> the outcome of the \<open>k\<close>-th call of \<open>fetch\<close> in a run
  (counting from 0) when its \<open>date\<close> query parameter is \<open>q\<close>.
\<close>

record platform =
  dateCtor :: "jsstring \<Rightarrow> date"
  clock :: int
  fetch :: "nat \<Rightarrow> jsstring option \<Rightarrow> response"

text \<open>A string value is truthy when it is there and not empty.\<close>

definition truthy :: "jsstring option \<Rightarrow> bool" where
  "truthy v = (case v of None \<Rightarrow> False | Some s \<Rightarrow> s \<noteq> [])"

section \<open>APODService\<close>

record Attribution =
  copyright :: "jsstring option"

record SpacePictureOfTheDay =
  requestedDate :: jsstring
  dateUsed :: jsstring
  title :: jsstring
  explanation :: jsstring
  mediaType :: "jsstring option"
  mediaUrl :: jsstring
  hdUrl :: "jsstring option"
  apodPageUrl :: jsstring
  attribution :: Attribution
  creditsText :: jsstring
  spaceEditionBlock :: jsstring

record options =
  opt_date :: "jsstring option"
  opt_maxDaysBack :: "jsnum option"

text \<open>
  \<^verbatim>\<open>if (text.length <= maxLen) return text;
  return `${text.slice(0, Math.max(0, maxLen - 1)).trimEnd()}...`;\<close>
  (the last character of the template is the single ellipsis character U+2026).
\<close>

definition ellipsis :: jschar where
  "ellipsis = 0x2026"

definition truncate :: "jsstring \<Rightarrow> int \<Rightarrow> jsstring" where
  "truncate text maxLen =
     (if int (length text) \<le> maxLen then text
      else trimEnd (slice text 0 (nat (max 0 (maxLen - 1)))) @ [ellipsis])"

text \<open>\<^verbatim>\<open>return text.replace(/\s+/g, ' ').trim();\<close>\<close>

definition normalizeWhitespace :: "jsstring \<Rightarrow> jsstring" where
  "normalizeWhitespace text = trim (collapseWhitespace text)"

text \<open>
  \<^verbatim>\<open>const yy = date.slice(2, 4);
  const mm = date.slice(5, 7);
  const dd = date.slice(8, 10);
  return `https://apod.nasa.gov/apod/ap${yy}${mm}${dd}.html`;\<close>
\<close>

definition apodPageUrlForDate :: "jsstring \<Rightarrow> jsstring" where
  "apodPageUrlForDate d =
     (let yy = slice d 2 4; mm = slice d 5 7; dd = slice d 8 10
      in js ''https://apod.nasa.gov/apod/ap'' @ yy @ mm @ dd @ js ''.html'')"

text \<open>
  \<^verbatim>\<open>parts.push(`Source: NASA Astronomy Picture of the Day (APOD) - ${apodPageUrl}`);
  if (apod.copyright) parts.push(`Credit: ${apod.copyright}`);
  parts.push('API: https://api.nasa.gov/');
  return parts.join(' | ');\<close>
  (the dash of the first template is the em dash U+2014).
\<close>

definition emDash :: jschar where
  "emDash = 0x2014"

definition buildCreditsText :: "ApodApiResponse \<Rightarrow> jsstring \<Rightarrow> jsstring" where
  "buildCreditsText apod pageUrl =
     join (js '' | '')
       ([js ''Source: NASA Astronomy Picture of the Day (APOD) '' @ [emDash] @ js '' '' @ pageUrl]
        @ (case apod_copyright apod of
             Some c \<Rightarrow> (if c \<noteq> [] then [js ''Credit: '' @ c] else [])
           | None \<Rightarrow> [])
        @ [js ''API: https://api.nasa.gov/''])"

text \<open>
  \<^verbatim>\<open>const shortExplanation = this.truncate(this.normalizeWhitespace(apod.explanation), 420);
  lines.push('Did you know? Space Edition!');
  lines.push(`NASA APOD (${apod.date}) - ${apod.title}`);
  lines.push('');
  lines.push(shortExplanation);
  lines.push('');
  lines.push(`Media: ${apod.url}`);
  if (apod.hdurl) lines.push(`HD: ${apod.hdurl}`);
  lines.push(`More: ${apodPageUrl}`);
  lines.push(creditsText);
  return lines.join('\n');\<close>
  \<open>spaceEditionLines\<close> is the array \<open>lines\<close> before it is joined.
\<close>

definition shortExplanation :: "ApodApiResponse \<Rightarrow> jsstring" where
  "shortExplanation apod = truncate (normalizeWhitespace (apod_explanation apod)) 420"

definition spaceEditionLines :: "ApodApiResponse \<Rightarrow> jsstring \<Rightarrow> jsstring \<Rightarrow> jsstring list" where
  "spaceEditionLines apod pageUrl credits =
     [js ''Did you know? Space Edition!'',
      js ''NASA APOD ('' @ apod_date apod @ js '') '' @ [emDash] @ js '' '' @ apod_title apod,
      [],
      shortExplanation apod,
      [],
      js ''Media: '' @ apod_url apod]
     @ (case apod_hdurl apod of
          Some h \<Rightarrow> (if h \<noteq> [] then [js ''HD: '' @ h] else [])
        | None \<Rightarrow> [])
     @ [js ''More: '' @ pageUrl, credits]"

definition buildSpaceEditionBlock :: "ApodApiResponse \<Rightarrow> jsstring \<Rightarrow> jsstring \<Rightarrow> jsstring" where
  "buildSpaceEditionBlock apod pageUrl credits = join [0x0A] (spaceEditionLines apod pageUrl credits)"

definition toSpacePictureOfTheDay :: "ApodApiResponse \<Rightarrow> jsstring \<Rightarrow> SpacePictureOfTheDay" where
  "toSpacePictureOfTheDay apod requested =
     (let pageUrl = apodPageUrlForDate (apod_date apod);
          credits = buildCreditsText apod pageUrl;
          block = buildSpaceEditionBlock apod pageUrl credits
      in \<lparr> requestedDate = requested,
           dateUsed = apod_date apod,
           title = apod_title apod,
           explanation = apod_explanation apod,
           mediaType = apod_media_type apod,
           mediaUrl = apod_url apod,
           hdUrl = apod_hdurl apod,
           apodPageUrl = pageUrl,
           attribution = \<lparr> copyright = apod_copyright apod \<rparr>,
           creditsText = credits,
           spaceEditionBlock = block \<rparr>)"

text \<open>
  \<^verbatim>\<open>if (date) params.append('date', date);
  const response = await fetch(url);
  if (!response.ok) {
    const errorText = await response.text().catch(() => '');
    throw new Error(`NASA API error (${response.status}): ${errorText}`.trim());
  }
  const data = (await response.json()) as ApodApiResponse;
  if (!data?.date || !data?.title || !data?.explanation || !data?.url) {
    throw new Error('NASA API returned an unexpected response shape.');
  }
  return data;\<close>
  The model returns the answer, or on the left the message that the \<open>catch\<close> block of
  the caller reads, together with the log of the \<open>date\<close> parameters fetched so far.
\<close>

type_synonym fetchLog = "jsstring option list"

definition checkShape :: "ApodJson option \<Rightarrow> jsstring + ApodApiResponse" where
  "checkShape data =
     (case data of
        None \<Rightarrow> Inl (js ''NASA API returned an unexpected response shape.'')
      | Some j \<Rightarrow>
          (case (json_date j, json_title j, json_explanation j, json_url j) of
             (Some d, Some t, Some e, Some u) \<Rightarrow>
               (if d = [] \<or> t = [] \<or> e = [] \<or> u = []
                then Inl (js ''NASA API returned an unexpected response shape.'')
                else Inr \<lparr> apod_date = d, apod_explanation = e,
                           apod_media_type = json_media_type j, apod_title = t, apod_url = u,
                           apod_hdurl = json_hdurl j, apod_copyright = json_copyright j \<rparr>)
           | _ \<Rightarrow> Inl (js ''NASA API returned an unexpected response shape.'')))"

definition outcome :: "response \<Rightarrow> jsstring + ApodApiResponse" where
  "outcome response =
     (case response of
        FetchRejected reason \<Rightarrow> Inl reason
      | NotOk status text \<Rightarrow>
          (let errorText = (case text of Some b \<Rightarrow> b | None \<Rightarrow> [])
           in Inl (trim (js ''NASA API error ('' @ showInt status @ js ''): '' @ errorText)))
      | JsonRejected reason \<Rightarrow> Inl reason
      | Json data \<Rightarrow> checkShape data)"

definition fetchApod ::
  "platform \<Rightarrow> fetchLog \<Rightarrow> jsstring option \<Rightarrow> (jsstring + ApodApiResponse) \<times> fetchLog" where
  "fetchApod P fetched d =
     (let q = (if truthy d then d else None);
          response = fetch P (length fetched) q
      in (outcome response, fetched @ [q]))"

text \<open>
  \<^verbatim>\<open>const dateRegex = /^\d{4}-\d{2}-\d{2}$/;
  if (!dateRegex.test(date)) return false;
  const parsed = new Date(`${date}T00:00:00Z`);
  return !isNaN(parsed.getTime());\<close>
\<close>

definition isDigit :: "jschar \<Rightarrow> bool" where
  "isDigit c \<longleftrightarrow> 0x30 \<le> c \<and> c \<le> 0x39"

definition dateRegex :: "jsstring \<Rightarrow> bool" where
  "dateRegex s \<longleftrightarrow>
     length s = 10 \<and> list_all isDigit (take 4 s) \<and> s ! 4 = 0x2D \<and>
     list_all isDigit (take 2 (drop 5 s)) \<and> s ! 7 = 0x2D \<and> list_all isDigit (drop 8 s)"

definition isValidDateFormat :: "platform \<Rightarrow> jsstring \<Rightarrow> bool" where
  "isValidDateFormat P d \<longleftrightarrow> dateRegex d \<and> dateCtor P (d @ js ''T00:00:00Z'') \<noteq> None"

definition parseDateUTC :: "platform \<Rightarrow> jsstring \<Rightarrow> date" where
  "parseDateUTC P d = dateCtor P (d @ js ''T00:00:00Z'')"

text \<open>
  \<^verbatim>\<open>const last = failures[failures.length - 1];
  throw new Error(`Unable to fetch NASA APOD after checking ${failures.length} day(s) back
    from ${requestedDate}. Last error (${last?.date}): ${last?.reason}`);\<close>
\<close>

type_synonym failure = "jsstring \<times> jsstring"

definition exhaustedMessage :: "failure list \<Rightarrow> jsstring \<Rightarrow> jsstring" where
  "exhaustedMessage failures requested =
     (let lastDate = (if failures = [] then js ''undefined'' else fst (last failures));
          lastReason = (if failures = [] then js ''undefined'' else snd (last failures))
      in js ''Unable to fetch NASA APOD after checking '' @ showNat (length failures) @
         js '' day(s) back from '' @ requested @ js ''. Last error ('' @ lastDate @ js ''): '' @
         lastReason)"

text \<open>
  The loop \<^verbatim>\<open>for (let i = 0; i <= maxDaysBack; i++)\<close> with its \<open>try\<close>/\<open>catch\<close>, and the
  \<open>throw\<close> behind it.
\<close>

function dateWalk ::
  "platform \<Rightarrow> jsstring \<Rightarrow> int \<Rightarrow> int \<Rightarrow> date \<Rightarrow> failure list \<Rightarrow> fetchLog \<Rightarrow>
     (error + SpacePictureOfTheDay) \<times> fetchLog" where
  "dateWalk P requested maxDaysBack i current failures fetched =
     (if i \<le> maxDaysBack then
        (let dateToTry = formatDateUTC current in
         case fetchApod P fetched (Some dateToTry) of
           (Inr apod, fetched') \<Rightarrow> (Inr (toSpacePictureOfTheDay apod requested), fetched')
         | (Inl reason, fetched') \<Rightarrow>
             dateWalk P requested maxDaysBack (i + 1) (addDaysUTC current (- 1))
               (failures @ [(dateToTry, reason)]) fetched')
      else (Inl (Error (exhaustedMessage failures requested)), fetched))"
  by pat_completeness auto
termination
  by (relation "measure (\<lambda>(P, requested, maxDaysBack, i, current, failures, fetched).
        nat (maxDaysBack + 1 - i))") auto

declare dateWalk.simps [simp del]

text \<open>
  \<^verbatim>\<open>const requestedDate = options?.date ?? this.formatDateUTC(new Date());
  if (!this.isValidDateFormat(requestedDate)) {
    throw new Error('Invalid date format. Use YYYY-MM-DD.');
  }
  const maxDaysBack = this.clampInt(options?.maxDaysBack ?? 10, 0, 30);
  let current = this.parseDateUTC(requestedDate);
  const failures = [];\<close>
  The result comes with the log of the fetches made.
\<close>

definition InvalidDateFormatError :: error where
  "InvalidDateFormatError = Error (js ''Invalid date format. Use YYYY-MM-DD.'')"

definition getSpacePictureOfTheDay ::
  "platform \<Rightarrow> options option \<Rightarrow> (error + SpacePictureOfTheDay) \<times> fetchLog" where
  "getSpacePictureOfTheDay P opts =
     (let requested = (case Option.bind opts opt_date of
                         Some d \<Rightarrow> d
                       | None \<Rightarrow> formatDateUTC (Some (clock P)))
      in if \<not> isValidDateFormat P requested then (Inl InvalidDateFormatError, [])
         else
           (let maxDaysBack = effectiveMaxDaysBack (Option.bind opts opt_maxDaysBack);
                current = parseDateUTC P requested
            in dateWalk P requested maxDaysBack 0 current [] []))"

subsection \<open>Notions for the properties of the explanation line\<close>

text \<open>
  \<open>normalized s\<close>: the white space of \<open>s\<close> consists of single space characters, each
  between two other characters. \<open>exampleApod e\<close> is an answer with explanation \<open>e\<close>.
\<close>

fun normalized :: "jsstring \<Rightarrow> bool" where
  "normalized [] = True"
| "normalized [c] = (\<not> isWhiteSpace c)"
| "normalized (c # d # cs) =
     (\<not> isWhiteSpace c \<and>
      (if isWhiteSpace d then d = 0x20 \<and> cs \<noteq> [] \<and> normalized cs else normalized (d # cs)))"

definition exampleApod :: "jsstring \<Rightarrow> ApodApiResponse" where
  "exampleApod e =
     \<lparr> apod_date = js ''2026-01-22'', apod_explanation = e,
       apod_media_type = Some (js ''image''), apod_title = js ''Test APOD'',
       apod_url = js ''https://example.com/image.jpg'',
       apod_hdurl = Some (js ''https://example.com/hd.jpg''),
       apod_copyright = Some (js ''Test Author'') \<rparr>"

subsection \<open>Notions for the properties of the date walk\<close>

text \<open>
  \<open>daysBack d k\<close> is the date after \<open>k\<close> steps of \<open>addDaysUTC _ (-1)\<close> from \<open>d\<close>, and
  \<open>attempt P d k\<close> is what the \<open>k\<close>-th fetch of a walk that starts at \<open>d\<close> comes to: the
  answer checked by \<open>fetchApod\<close>, or the reason of the failure (\<open>walkAttempt\<close> is the
  same for a walk that is under way, with \<open>l\<close> fetches made before).
  \<open>ExhaustedFallbackError n requested lastDate lastReason\<close> is the error raised after
  \<open>n\<close> failed attempts.
\<close>

primrec daysBack :: "date \<Rightarrow> nat \<Rightarrow> date" where
  "daysBack d 0 = d"
| "daysBack d (Suc k) = daysBack (addDaysUTC d (- 1)) k"

definition walkAttempt :: "platform \<Rightarrow> date \<Rightarrow> nat \<Rightarrow> nat \<Rightarrow> jsstring + ApodApiResponse" where
  "walkAttempt P cur l k = outcome (fetch P (l + k) (Some (formatDateUTC (daysBack cur k))))"

definition attemptDate :: "platform \<Rightarrow> jsstring \<Rightarrow> nat \<Rightarrow> jsstring" where
  "attemptDate P requested k = formatDateUTC (daysBack (parseDateUTC P requested) k)"

definition attempt :: "platform \<Rightarrow> jsstring \<Rightarrow> nat \<Rightarrow> jsstring + ApodApiResponse" where
  "attempt P requested k = outcome (fetch P k (Some (attemptDate P requested k)))"

definition ExhaustedFallbackError :: "nat \<Rightarrow> jsstring \<Rightarrow> jsstring \<Rightarrow> jsstring \<Rightarrow> error" where
  "ExhaustedFallbackError n requested lastDate lastReason =
     Error (js ''Unable to fetch NASA APOD after checking '' @ showNat n @
            js '' day(s) back from '' @ requested @ js ''. Last error ('' @ lastDate @ js ''): '' @
            lastReason)"

subsection \<open>A platform for the examples\<close>

text \<open>
  A \<open>Date\<close> constructor for the strings the service builds, \<open>YYYY-MM-DDT00:00:00Z\<close>:
  months 01 to 12 and days 01 to 31 are accepted (a day past the end of its month runs
  over into the next month), every other string is an invalid date. \<open>mockPlatform rs\<close>
  answers the \<open>k\<close>-th fetch with \<open>rs k\<close>, as a test double does, and its clock stands at
  2026-01-22T00:00:00Z.
\<close>

definition digitsValue :: "jsstring \<Rightarrow> int" where
  "digitsValue s = foldl (\<lambda>acc c. 10 * acc + (uint c - 0x30)) 0 s"

definition isoDateCtor :: "jsstring \<Rightarrow> date" where
  "isoDateCtor s =
     (if dateRegex (take 10 s) \<and> drop 10 s = js ''T00:00:00Z'' then
        (let y = digitsValue (take 4 s);
             m = digitsValue (take 2 (drop 5 s));
             d = digitsValue (take 2 (drop 8 s))
         in if 1 \<le> m \<and> m \<le> 12 \<and> 1 \<le> d \<and> d \<le> 31
            then timeClip (daysFromCivil y m d * msPerDay) else None)
      else None)"

text \<open>
  \<open>realUTCDate s\<close>: \<open>s\<close> is \<open>YYYY-MM-DD\<close> and names a day of the calendar, that is, a
  month from 1 to 12 and a day from 1 to the length of that month in that year.
\<close>

definition isLeapYear :: "int \<Rightarrow> bool" where
  "isLeapYear y = (if y mod 100 = 0 then y mod 400 = 0 else y mod 4 = 0)"

definition daysInMonth :: "int \<Rightarrow> int \<Rightarrow> int" where
  "daysInMonth y m =
     (if m = 2 then (if isLeapYear y then 29 else 28)
      else if m = 4 \<or> m = 6 \<or> m = 9 \<or> m = 11 then 30 else 31)"

definition realUTCDate :: "jsstring \<Rightarrow> bool" where
  "realUTCDate s \<longleftrightarrow>
     dateRegex s \<and>
     1 \<le> digitsValue (take 2 (drop 5 s)) \<and> digitsValue (take 2 (drop 5 s)) \<le> 12 \<and>
     1 \<le> digitsValue (take 2 (drop 8 s)) \<and>
     digitsValue (take 2 (drop 8 s)) \<le>
       daysInMonth (digitsValue (take 4 s)) (digitsValue (take 2 (drop 5 s)))"

definition mockPlatform :: "(nat \<Rightarrow> response) \<Rightarrow> platform" where
  "mockPlatform rs = \<lparr> dateCtor = isoDateCtor, clock = 1769040000000, fetch = (\<lambda>k q. rs k) \<rparr>"

text \<open>
  Answers and networks for the examples. \<open>exampleJson d e\<close> is a complete answer with
  date \<open>d\<close> and explanation \<open>e\<close>. \<open>serverErrorNetwork\<close> fails every fetch with status
  500; \<open>walkBackNetwork\<close> fails the first fetch with status 404 and then answers for
  2026-01-21; \<open>dayAheadNetwork\<close> answers every fetch with an entry dated 2026-01-23.
\<close>

definition exampleJson :: "jsstring \<Rightarrow> jsstring \<Rightarrow> ApodJson" where
  "exampleJson d e =
     \<lparr> json_date = Some d, json_explanation = Some e, json_media_type = Some (js ''image''),
       json_title = Some (js ''Previous Day APOD''),
       json_url = Some (js ''https://example.com/prev.jpg''),
       json_hdurl = None, json_copyright = None \<rparr>"

definition serverErrorNetwork :: "nat \<Rightarrow> response" where
  "serverErrorNetwork k = NotOk 500 (Some (js ''Server error''))"


definition dayAheadNetwork :: "nat \<Rightarrow> response" where
  "dayAheadNetwork k = Json (Some (exampleJson (js ''2026-01-23'') (js ''Explanation'')))"

definition exampleOptions :: "jsnum option \<Rightarrow> options option" where
  "exampleOptions m = Some \<lparr> opt_date = Some (js ''2026-01-22''), opt_maxDaysBack = m \<rparr>"
section \<open>Look-back bound\<close>

lemma clampInt_range: "mn \<le> mx \<Longrightarrow> mn \<le> clampInt v mn mx \<and> clampInt v mn mx \<le> mx"
  by (cases v) auto

text \<open>
  C1 (as the source has it): the look-back bound always lies in \<open>[0, 30]\<close>. A missing
  \<open>maxDaysBack\<close> gives 10; a finite one gives its floor clamped into \<open>[0, 30]\<close>; a
  non-finite one (NaN or an infinity) gives the lower limit 0, not the default.
\<close>

theorem effectiveMaxDaysBack_cases:
  "0 \<le> effectiveMaxDaysBack mdb \<and> effectiveMaxDaysBack mdb \<le> 30 \<and>
   effectiveMaxDaysBack None = 10 \<and>
   effectiveMaxDaysBack (Some (Finite x)) = max 0 (min 30 \<lfloor>x\<rfloor>) \<and>
   effectiveMaxDaysBack (Some NaN) = 0 \<and>
   effectiveMaxDaysBack (Some PosInfinity) = 0 \<and>
   effectiveMaxDaysBack (Some NegInfinity) = 0"
proof -
  have "0 \<le> effectiveMaxDaysBack mdb \<and> effectiveMaxDaysBack mdb \<le> 30"
    unfolding effectiveMaxDaysBack_def using clampInt_range [of 0 30] by simp
  then show ?thesis
    by (simp add: effectiveMaxDaysBack_def)
qed

section \<open>Facts about the string operations\<close>

lemma all_dropWhile: "(\<forall>c\<in>set (dropWhile P cs). P c) \<longleftrightarrow> (\<forall>c\<in>set cs. P c)"
  by (induction cs) auto

lemma trimEnd_Nil: "trimEnd s = [] \<longleftrightarrow> (\<forall>c\<in>set s. isWhiteSpace c)"
  by (simp add: trimEnd_def dropWhile_eq_Nil_conv)

lemma trim_Nil: "trim s = [] \<longleftrightarrow> (\<forall>c\<in>set s. isWhiteSpace c)"
  by (simp add: trim_def trimStart_def trimEnd_Nil all_dropWhile)

lemma isWhiteSpace_space: "isWhiteSpace 0x20"
  by (simp add: isWhiteSpace_def)

lemma collapse_blank:
  "(\<forall>c\<in>set (collapseWhitespace s). isWhiteSpace c) \<longleftrightarrow> (\<forall>c\<in>set s. isWhiteSpace c)"
  by (induction s rule: collapseWhitespace.induct)
     (simp_all add: isWhiteSpace_space all_dropWhile)

lemma replaceTags_blank:
  "(\<forall>c\<in>set (replaceTags s). isWhiteSpace c) \<longleftrightarrow> (\<forall>c\<in>set (stripTags s). isWhiteSpace c)"
  by (induction s rule: replaceTags.induct) (simp_all add: isWhiteSpace_space)

lemma html_blank:
  "trim (collapseWhitespace (replaceTags p)) = [] \<longleftrightarrow> trim (collapseWhitespace (stripTags p)) = []"
  by (simp add: trim_Nil collapse_blank replaceTags_blank)

lemma occursAt_0: "occursAt m s 0 \<longleftrightarrow> startsWith s m"
proof -
  have "length m \<le> length s" if "take (length m) s = m"
  proof -
    from that have "length (take (length m) s) = length m" by simp
    then show ?thesis by simp
  qed
  then show ?thesis by (auto simp: occursAt_def startsWith_def)
qed

lemma occursAt_Suc: "occursAt m (c # cs) (Suc i) \<longleftrightarrow> occursAt m cs i"
  by (simp add: occursAt_def)

lemma indexOf_None: "indexOf s m = None \<longleftrightarrow> (\<forall>i. \<not> occursAt m s i)"
proof (induction s)
  case Nil
  then show ?case by (auto simp: occursAt_def)
next
  case (Cons c cs)
  show ?case
  proof
    assume "indexOf (c # cs) m = None"
    then have a: "\<not> startsWith (c # cs) m" and b: "indexOf cs m = None"
      by (auto split: if_splits)
    show "\<forall>i. \<not> occursAt m (c # cs) i"
    proof
      fix i show "\<not> occursAt m (c # cs) i"
        using a b Cons.IH by (cases i) (simp_all add: occursAt_0 occursAt_Suc)
    qed
  next
    assume h: "\<forall>i. \<not> occursAt m (c # cs) i"
    then have "\<not> startsWith (c # cs) m" using occursAt_0 by blast
    moreover have "\<forall>i. \<not> occursAt m cs i" using h occursAt_Suc by blast
    ultimately show "indexOf (c # cs) m = None" using Cons.IH by simp
  qed
qed

lemma indexOf_Some:
  "indexOf s m = Some i \<longleftrightarrow> occursAt m s i \<and> (\<forall>j<i. \<not> occursAt m s j)"
proof (induction s arbitrary: i)
  case Nil
  then show ?case by (auto simp: occursAt_def)
next
  case (Cons c cs)
  show ?case
  proof (cases "startsWith (c # cs) m")
    case True
    then have "occursAt m (c # cs) 0" by (simp add: occursAt_0)
    then show ?thesis using True by (cases i) auto
  next
    case False
    then have n0: "\<not> occursAt m (c # cs) 0" by (simp add: occursAt_0)
    show ?thesis
    proof (cases i)
      case 0
      then show ?thesis using False n0 by auto
    next
      case (Suc k)
      have "(\<forall>j<Suc k. \<not> occursAt m (c # cs) j) \<longleftrightarrow> (\<forall>j<k. \<not> occursAt m cs j)"
        using n0 by (auto simp: less_Suc_eq_0_disj occursAt_Suc)
      then show ?thesis using False Suc Cons.IH [of k] by (auto simp: occursAt_Suc)
    qed
  qed
qed

text \<open>
  C6: the guardrail fails with \<open>MissingReplyBodyError\<close> exactly when the marker occurs in
  \<open>replyBody\<close> and the prefix before its first occurrence is blank after processing: in
  plain mode after trimming the raw prefix, in HTML mode after stripping tags, collapsing
  white space and trimming. In every other case it returns, and for a \<open>replyBody\<close> that
  does not contain the marker it returns whatever the format.
\<close>

theorem guardrail_fails_iff:
  "(assertReplyBodyHasMainReplyBeforeSpaceEdition replyBody format = Inl (MissingReplyBodyError format)
      \<longleftrightarrow> (\<exists>i. occursAt marker replyBody i \<and> (\<forall>j<i. \<not> occursAt marker replyBody j) \<and>
               blankPrefix format (take i replyBody))) \<and>
   (assertReplyBodyHasMainReplyBeforeSpaceEdition replyBody format \<noteq> Inl (MissingReplyBodyError format)
      \<longrightarrow> assertReplyBodyHasMainReplyBeforeSpaceEdition replyBody format = Inr ()) \<and>
   ((\<forall>i. \<not> occursAt marker replyBody i)
      \<longrightarrow> assertReplyBodyHasMainReplyBeforeSpaceEdition replyBody format = Inr ())"
proof (cases "indexOf replyBody marker")
  case None
  then have "\<forall>i. \<not> occursAt marker replyBody i" by (simp add: indexOf_None)
  then show ?thesis using None
    by (simp add: assertReplyBodyHasMainReplyBeforeSpaceEdition_def)
next
  case (Some k)
  then have k: "occursAt marker replyBody k" "\<forall>j<k. \<not> occursAt marker replyBody j"
    by (simp_all add: indexOf_Some)
  have uniq: "occursAt marker replyBody i \<and> (\<forall>j<i. \<not> occursAt marker replyBody j) \<longleftrightarrow> i = k" for i
    using Some indexOf_Some [of replyBody marker i] by auto
  have "(\<exists>i. occursAt marker replyBody i \<and> (\<forall>j<i. \<not> occursAt marker replyBody j) \<and>
               blankPrefix format (take i replyBody)) \<longleftrightarrow> blankPrefix format (take k replyBody)"
  proof
    assume "\<exists>i. occursAt marker replyBody i \<and> (\<forall>j<i. \<not> occursAt marker replyBody j) \<and>
               blankPrefix format (take i replyBody)"
    then obtain i where i: "occursAt marker replyBody i \<and> (\<forall>j<i. \<not> occursAt marker replyBody j)"
      and b: "blankPrefix format (take i replyBody)" by blast
    from i have "i = k" by (simp only: uniq)
    with b show "blankPrefix format (take k replyBody)" by simp
  next
    assume "blankPrefix format (take k replyBody)"
    with k show "\<exists>i. occursAt marker replyBody i \<and> (\<forall>j<i. \<not> occursAt marker replyBody j) \<and>
               blankPrefix format (take i replyBody)" by blast
  qed
  moreover have "\<exists>i. occursAt marker replyBody i" using k by blast
  moreover have "assertReplyBodyHasMainReplyBeforeSpaceEdition replyBody format =
      (if blankPrefix format (take k replyBody) then Inl (MissingReplyBodyError format) else Inr ())"
    using Some
    by (cases format)
       (simp_all add: assertReplyBodyHasMainReplyBeforeSpaceEdition_def Let_def blankPrefix_def
          MissingReplyBodyError_def html_blank)
  ultimately show ?thesis by simp
qed

theorem guardrail_fails_iff_witness:
  "assertReplyBodyHasMainReplyBeforeSpaceEdition (js ''Did you know? Space Edition!X'') plain
     = Inl (MissingReplyBodyError plain) \<and>
   assertReplyBodyHasMainReplyBeforeSpaceEdition (js ''Hello there'') html = Inr ()"
proof -
  have a: "occursAt marker (js ''Did you know? Space Edition!X'') 0"
    by (simp add: occursAt_def marker_def js_def)
  have b: "blankPrefix plain (take 0 (js ''Did you know? Space Edition!X''))"
    by (simp add: blankPrefix_def trim_Nil)
  have c: "\<forall>i. \<not> occursAt marker (js ''Hello there'') i"
    by (simp add: occursAt_def marker_def js_def)
  have "\<exists>i. occursAt marker (js ''Did you know? Space Edition!X'') i \<and>
          (\<forall>j<i. \<not> occursAt marker (js ''Did you know? Space Edition!X'') j) \<and>
          blankPrefix plain (take i (js ''Did you know? Space Edition!X''))"
    using a b by (intro exI [of _ 0]) simp
  then show ?thesis
    using guardrail_fails_iff [of "js ''Did you know? Space Edition!X''" plain]
      guardrail_fails_iff [of "js ''Hello there''" html] c
    by blast
qed

text \<open>The four examples of the specification, evaluated on the model.\<close>

lemma guardrail_examples:
  "assertReplyBodyHasMainReplyBeforeSpaceEdition
     (js ''Did you know? Space Edition!'' @ [0x0A] @ js ''X'') plain = Inl missingReplyBodyPlain"
  "assertReplyBodyHasMainReplyBeforeSpaceEdition
     (js ''Thanks!'' @ [0x0A, 0x0A] @ js ''Did you know? Space Edition!'' @ [0x0A] @ js ''X'') plain = Inr ()"
  "assertReplyBodyHasMainReplyBeforeSpaceEdition
     (js ''<h3>Did you know? Space Edition!</h3>'') html = Inl missingReplyBodyHtml"
  "assertReplyBodyHasMainReplyBeforeSpaceEdition
     (js ''<p>Thanks.</p><h3>Did you know? Space Edition!</h3>'') html = Inr ()"
  by code_simp+

section \<open>The date walk\<close>

lemma formatDateUTC_nonempty: "formatDateUTC d \<noteq> []"
  by (cases d) (simp_all add: formatDateUTC_def js_def Let_def)

lemma fetchApod_Some_format:
  "fetchApod P fetched (Some (formatDateUTC d)) =
     (outcome (fetch P (length fetched) (Some (formatDateUTC d))), fetched @ [Some (formatDateUTC d)])"
  by (simp add: fetchApod_def truthy_def formatDateUTC_nonempty Let_def)

lemma dateWalk_done:
  "\<not> i \<le> m \<Longrightarrow> dateWalk P req m i cur failures fetched =
     (Inl (Error (exhaustedMessage failures req)), fetched)"
  by (subst dateWalk.simps) simp

lemma dateWalk_fail_step:
  "i \<le> m \<Longrightarrow> outcome (fetch P (length fetched) (Some (formatDateUTC cur))) = Inl reason \<Longrightarrow>
   dateWalk P req m i cur failures fetched =
     dateWalk P req m (i + 1) (addDaysUTC cur (- 1)) (failures @ [(formatDateUTC cur, reason)])
       (fetched @ [Some (formatDateUTC cur)])"
  by (subst dateWalk.simps) (simp add: fetchApod_Some_format Let_def)

lemma dateWalk_success_step:
  "i \<le> m \<Longrightarrow> outcome (fetch P (length fetched) (Some (formatDateUTC cur))) = Inr apod \<Longrightarrow>
   dateWalk P req m i cur failures fetched =
     (Inr (toSpacePictureOfTheDay apod req), fetched @ [Some (formatDateUTC cur)])"
  by (subst dateWalk.simps) (simp add: fetchApod_Some_format Let_def)

lemma dateWalk_all_fail:
  "i + int n = m + 1 \<Longrightarrow> \<forall>k<n. isl (walkAttempt P cur (length fetched) k) \<Longrightarrow>
   dateWalk P req m i cur failures fetched =
     (Inl (Error (exhaustedMessage
        (failures @ map (\<lambda>k. (formatDateUTC (daysBack cur k), projl (walkAttempt P cur (length fetched) k))) [0..<n])
        req)),
      fetched @ map (\<lambda>k. Some (formatDateUTC (daysBack cur k))) [0..<n])"
proof (induction n arbitrary: i cur failures fetched)
  case 0
  then show ?case by (simp add: dateWalk_done)
next
  case (Suc n)
  from Suc.prems have i: "i \<le> m" by simp
  from Suc.prems have "isl (walkAttempt P cur (length fetched) 0)" by blast
  then obtain reason where r: "outcome (fetch P (length fetched) (Some (formatDateUTC cur))) = Inl reason"
    by (auto simp: walkAttempt_def isl_def)
  have shift: "walkAttempt P (addDaysUTC cur (- 1)) (length (fetched @ [Some (formatDateUTC cur)])) k
      = walkAttempt P cur (length fetched) (Suc k)" for k
    by (simp add: walkAttempt_def)
  have fails: "\<forall>k<n. isl (walkAttempt P (addDaysUTC cur (- 1)) (length (fetched @ [Some (formatDateUTC cur)])) k)"
    using Suc.prems(2) by (simp only: shift) auto
  have next_i: "(i + 1) + int n = m + 1" using Suc.prems(1) by simp
  have r0: "projl (walkAttempt P cur (length fetched) 0) = reason"
    using r by (simp add: walkAttempt_def)
  show ?case
    by (simp only: dateWalk_fail_step [OF i r] Suc.IH [OF next_i fails] shift map_upt_Suc)
       (simp add: r0)
qed




lemma daysBack_in_range:
  "t0 \<le> 8640000000000000 \<Longrightarrow> - 8640000000000000 \<le> t0 - int k * msPerDay \<Longrightarrow>
   daysBack (Some t0) k = Some (t0 - int k * msPerDay)"
proof (induction k arbitrary: t0)
  case 0
  then show ?case by simp
next
  case (Suc k)
  have pos: "0 \<le> int k * msPerDay" by (simp add: msPerDay_def)
  have "timeClip (t0 + - 1 * msPerDay) = Some (t0 - msPerDay)"
    using Suc.prems pos by (simp add: timeClip_def msPerDay_def algebra_simps)
  moreover have "daysBack (Some (t0 - msPerDay)) k = Some (t0 - msPerDay - int k * msPerDay)"
    using Suc.prems by (intro Suc.IH) (simp_all add: msPerDay_def algebra_simps)
  ultimately show ?case by (simp add: addDaysUTC_def algebra_simps)
qed

lemma effectiveMaxDaysBack_nonneg: "0 \<le> effectiveMaxDaysBack m"
  unfolding effectiveMaxDaysBack_def using clampInt_range [of 0 30] by simp

lemma walkAttempt_attempt: "walkAttempt P (parseDateUTC P d) 0 k = attempt P d k"
  by (simp add: walkAttempt_def attempt_def attemptDate_def)

lemma exhaustedMessage_last:
  "Error (exhaustedMessage (map f [0..<Suc n]) req) =
     ExhaustedFallbackError (Suc n) req (fst (f n)) (snd (f n))"
  by (simp add: exhaustedMessage_def ExhaustedFallbackError_def Let_def)

lemma outcome_isl:
  "isl (outcome r) \<longleftrightarrow>
     (\<forall>j. r = Json (Some j) \<longrightarrow>
        \<not> (truthy (json_date j) \<and> truthy (json_title j) \<and> truthy (json_explanation j) \<and>
           truthy (json_url j)))"
  by (cases r)
     (auto simp: outcome_def checkShape_def truthy_def Let_def split: option.splits)

lemma walk_exhausted:
  assumes valid: "isValidDateFormat P d"
    and fail: "\<forall>k. int k \<le> effectiveMaxDaysBack m \<longrightarrow> isl (attempt P d k)"
  shows "getSpacePictureOfTheDay P (Some \<lparr> opt_date = Some d, opt_maxDaysBack = m \<rparr>) =
           (Inl (ExhaustedFallbackError (nat (effectiveMaxDaysBack m) + 1) d
                   (attemptDate P d (nat (effectiveMaxDaysBack m)))
                   (projl (attempt P d (nat (effectiveMaxDaysBack m))))),
            map (\<lambda>k. Some (attemptDate P d k)) [0..<nat (effectiveMaxDaysBack m) + 1])"
proof -
  let ?M = "effectiveMaxDaysBack m"
  let ?n = "nat ?M"
  have M: "0 \<le> ?M" by (rule effectiveMaxDaysBack_nonneg)
  have start: "0 + int (Suc ?n) = ?M + 1" using M by simp
  have fails: "\<forall>k<Suc ?n. isl (walkAttempt P (parseDateUTC P d) (length ([]::fetchLog)) k)"
    using fail M by (simp add: walkAttempt_attempt)
  have "getSpacePictureOfTheDay P (Some \<lparr> opt_date = Some d, opt_maxDaysBack = m \<rparr>) =
          dateWalk P d ?M 0 (parseDateUTC P d) [] []"
    using valid by (simp add: getSpacePictureOfTheDay_def Let_def)
  also have "\<dots> = (Inl (Error (exhaustedMessage
        (map (\<lambda>k. (attemptDate P d k, projl (attempt P d k))) [0..<Suc ?n]) d)),
      map (\<lambda>k. Some (attemptDate P d k)) [0..<Suc ?n])"
    using dateWalk_all_fail [OF start fails, of d "[]"]
    by (simp only: walkAttempt_attempt list.size append_Nil attemptDate_def [symmetric])
  finally show ?thesis
    unfolding exhaustedMessage_last by simp
qed

text \<open>
  C4: when the requested date is valid and every attempt of the walk fails (the fetch is
  rejected, the status is not ok, or the body lacks \<open>date\<close>, \<open>title\<close>, \<open>explanation\<close> or
  \<open>url\<close>; see \<open>outcome_isl\<close>), exactly \<open>maxDaysBack + 1\<close> fetches are made, where
  \<open>maxDaysBack\<close> is the clamped bound; the \<open>k\<close>-th asks for the date \<open>k\<close> days before the
  requested one; and the call fails with the error whose message gives the number of
  attempts and the date and reason of the last failure only.
\<close>

theorem all_attempts_fail:
  assumes valid: "isValidDateFormat P d"
    and fail: "\<forall>k. int k \<le> effectiveMaxDaysBack m \<longrightarrow> isl (attempt P d k)"
  shows "getSpacePictureOfTheDay P (Some \<lparr> opt_date = Some d, opt_maxDaysBack = m \<rparr>) =
           (Inl (ExhaustedFallbackError (nat (effectiveMaxDaysBack m) + 1) d
                   (attemptDate P d (nat (effectiveMaxDaysBack m)))
                   (projl (attempt P d (nat (effectiveMaxDaysBack m))))),
            map (\<lambda>k. Some (attemptDate P d k)) [0..<nat (effectiveMaxDaysBack m) + 1]) \<and>
         length (snd (getSpacePictureOfTheDay P (Some \<lparr> opt_date = Some d, opt_maxDaysBack = m \<rparr>)))
           = nat (effectiveMaxDaysBack m) + 1 \<and>
         (\<forall>k t0. parseDateUTC P d = Some t0 \<and> t0 \<le> 8640000000000000 \<and>
                  - 8640000000000000 \<le> t0 - int k * msPerDay \<longrightarrow>
                  attemptDate P d k = formatDateUTC (Some (t0 - int k * msPerDay)))"
proof (intro conjI allI impI)
  fix k t0
  assume "parseDateUTC P d = Some t0 \<and> t0 \<le> 8640000000000000 \<and>
          - 8640000000000000 \<le> t0 - int k * msPerDay"
  then show "attemptDate P d k = formatDateUTC (Some (t0 - int k * msPerDay))"
    by (simp add: attemptDate_def daysBack_in_range)
next
  show "getSpacePictureOfTheDay P (Some \<lparr> opt_date = Some d, opt_maxDaysBack = m \<rparr>) =
           (Inl (ExhaustedFallbackError (nat (effectiveMaxDaysBack m) + 1) d
                   (attemptDate P d (nat (effectiveMaxDaysBack m)))
                   (projl (attempt P d (nat (effectiveMaxDaysBack m))))),
            map (\<lambda>k. Some (attemptDate P d k)) [0..<nat (effectiveMaxDaysBack m) + 1])"
    by (rule walk_exhausted [OF valid fail])
  then show "length (snd (getSpacePictureOfTheDay P (Some \<lparr> opt_date = Some d, opt_maxDaysBack = m \<rparr>)))
           = nat (effectiveMaxDaysBack m) + 1"
    by simp
qed

lemma isValid_example: "isValidDateFormat (mockPlatform rs) (js ''2026-01-22'')"
  by code_simp

lemma attemptDate_example:
  "attemptDate (mockPlatform rs) (js ''2026-01-22'') 0 = js ''2026-01-22''"
  "attemptDate (mockPlatform rs) (js ''2026-01-22'') 1 = js ''2026-01-21''"
  by code_simp+

theorem all_attempts_fail_witness:
  "getSpacePictureOfTheDay (mockPlatform serverErrorNetwork) (exampleOptions (Some (Finite 1))) =
   (Inl (ExhaustedFallbackError 2 (js ''2026-01-22'') (js ''2026-01-21'')
           (js ''NASA API error (500): Server error'')),
    [Some (js ''2026-01-22''), Some (js ''2026-01-21'')])"
proof -
  let ?P = "mockPlatform serverErrorNetwork"
  have m: "effectiveMaxDaysBack (Some (Finite 1)) = 1"
    by (simp add: effectiveMaxDaysBack_def)
  have f: "\<forall>k. int k \<le> effectiveMaxDaysBack (Some (Finite 1)) \<longrightarrow> isl (attempt ?P (js ''2026-01-22'') k)"
    by (simp add: attempt_def mockPlatform_def serverErrorNetwork_def outcome_def)
  have r: "projl (attempt ?P (js ''2026-01-22'') (Suc 0)) = js ''NASA API error (500): Server error''"
    by code_simp
  have a0: "attemptDate ?P (js ''2026-01-22'') 0 = js ''2026-01-22''"
    by (rule attemptDate_example)
  have a1: "attemptDate ?P (js ''2026-01-22'') (Suc 0) = js ''2026-01-21''"
    using attemptDate_example(2) [of serverErrorNetwork] by simp
  have u: "[0..<2] = [0, Suc 0]" by (simp add: numeral_2_eq_2)
  from all_attempts_fail [OF isValid_example f, THEN conjunct1] show ?thesis
    by (simp add: m a0 a1 r u numeral_2_eq_2 exampleOptions_def)
qed




lemma getSpacePictureOfTheDay_walk:
  "isValidDateFormat P d \<Longrightarrow>
   getSpacePictureOfTheDay P (Some \<lparr> opt_date = Some d, opt_maxDaysBack = m \<rparr>) =
     dateWalk P d (effectiveMaxDaysBack m) 0 (parseDateUTC P d) [] []"
  by (simp add: getSpacePictureOfTheDay_def Let_def)

lemma outcome_exampleJson:
  "d \<noteq> [] \<Longrightarrow> e \<noteq> [] \<Longrightarrow>
   outcome (Json (Some (exampleJson d e))) =
     Inr \<lparr> apod_date = d, apod_explanation = e, apod_media_type = Some (js ''image''),
           apod_title = js ''Previous Day APOD'', apod_url = js ''https://example.com/prev.jpg'',
           apod_hdurl = None, apod_copyright = None \<rparr>"
  by (simp add: outcome_def checkShape_def exampleJson_def js_def)






section \<open>The explanation line of the Space Edition block\<close>

lemma normalized_hd: "normalized s \<Longrightarrow> s \<noteq> [] \<Longrightarrow> \<not> isWhiteSpace (hd s)"
  by (induction s rule: normalized.induct) (auto split: if_splits)

lemma normalized_last: "normalized s \<Longrightarrow> s \<noteq> [] \<Longrightarrow> \<not> isWhiteSpace (last s)"
  by (induction s rule: normalized.induct) (auto split: if_splits)

lemma dropWhile_hd: "s \<noteq> [] \<Longrightarrow> \<not> P (hd s) \<Longrightarrow> dropWhile P s = s"
  by (cases s) auto

lemma normalized_collapse: "normalized s \<Longrightarrow> collapseWhitespace s = s"
proof (induction s rule: normalized.induct)
  case 1
  then show ?case by simp
next
  case (2 c)
  then show ?case by simp
next
  case (3 c d cs)
  show ?case
  proof (cases "isWhiteSpace d")
    case True
    with 3 have d: "d = 0x20" and cs: "cs \<noteq> []" "normalized cs" and c: "\<not> isWhiteSpace c" by auto
    have "dropWhile isWhiteSpace cs = cs"
      using cs by (intro dropWhile_hd normalized_hd)
    then show ?thesis using True d cs c "3.IH"(1) by simp
  next
    case False
    with 3 show ?thesis by simp
  qed
qed

lemma normalized_trim: "normalized s \<Longrightarrow> trim s = s"
proof (cases "s = []")
  case True
  then show ?thesis by (simp add: trim_def trimStart_def trimEnd_def)
next
  case False
  assume n: "normalized s"
  have a: "dropWhile isWhiteSpace s = s"
    using False n by (intro dropWhile_hd normalized_hd)
  have "dropWhile isWhiteSpace (rev s) = rev s"
    using False n by (intro dropWhile_hd) (simp_all add: hd_rev normalized_last)
  then show ?thesis using a by (simp add: trim_def trimStart_def trimEnd_def)
qed

lemma normalized_normalizeWhitespace: "normalized s \<Longrightarrow> normalizeWhitespace s = s"
  by (simp add: normalizeWhitespace_def normalized_collapse normalized_trim)

lemma length_trimEnd: "length (trimEnd s) \<le> length s"
  by (simp add: trimEnd_def length_dropWhile_le [of _ "rev s", simplified])

lemma truncate_short: "int (length t) \<le> n \<Longrightarrow> truncate t n = t"
  by (simp add: truncate_def)

lemma truncate_long:
  "n < int (length t) \<Longrightarrow> truncate t n = trimEnd (take (nat (n - 1)) t) @ [ellipsis]"
  by (simp add: truncate_def slice_def max_def)

lemma length_truncate: "0 < n \<Longrightarrow> int (length (truncate t n)) \<le> n"
proof (cases "int (length t) \<le> n")
  case True
  then show ?thesis by (simp add: truncate_short)
next
  case False
  assume n: "0 < n"
  have "length (trimEnd (take (nat (n - 1)) t)) \<le> nat (n - 1)"
    using length_trimEnd [of "take (nat (n - 1)) t"] by simp
  then show ?thesis using False n by (simp add: truncate_long)
qed

lemma spaceEditionLines_nth3: "spaceEditionLines apod p c ! 3 = shortExplanation apod"
  by (simp add: spaceEditionLines_def numeral_3_eq_3)

text \<open>
  C2 (as the source has it): the fourth line of the plain-text block is the explanation
  with its white space normalised (runs collapsed to one space, ends trimmed; this is the
  explanation itself when it is \<open>normalized\<close> already), unchanged when that has at most 420
  characters; when it is longer, its first 419 characters are kept, trailing white space
  is trimmed and one ellipsis character is appended, so that the line never has more than
  420 characters.
\<close>

theorem explanation_line:
  "spaceEditionBlock (toSpacePictureOfTheDay apod req) =
     join [0x0A] (spaceEditionLines apod (apodPageUrlForDate (apod_date apod))
                    (buildCreditsText apod (apodPageUrlForDate (apod_date apod)))) \<and>
   spaceEditionLines apod p c ! 3 = shortExplanation apod \<and>
   (length (normalizeWhitespace (apod_explanation apod)) \<le> 420 \<longrightarrow>
      shortExplanation apod = normalizeWhitespace (apod_explanation apod)) \<and>
   (420 < length (normalizeWhitespace (apod_explanation apod)) \<longrightarrow>
      shortExplanation apod =
        trimEnd (take 419 (normalizeWhitespace (apod_explanation apod))) @ [ellipsis]) \<and>
   length (shortExplanation apod) \<le> 420 \<and>
   (normalized (apod_explanation apod) \<longrightarrow>
      normalizeWhitespace (apod_explanation apod) = apod_explanation apod)"
proof (intro conjI impI)
  show "spaceEditionBlock (toSpacePictureOfTheDay apod req) =
     join [0x0A] (spaceEditionLines apod (apodPageUrlForDate (apod_date apod))
                    (buildCreditsText apod (apodPageUrlForDate (apod_date apod))))"
    by (simp add: toSpacePictureOfTheDay_def buildSpaceEditionBlock_def Let_def)
  show "spaceEditionLines apod p c ! 3 = shortExplanation apod"
    by (rule spaceEditionLines_nth3)
  show "shortExplanation apod = normalizeWhitespace (apod_explanation apod)"
    if "length (normalizeWhitespace (apod_explanation apod)) \<le> 420"
    using that by (simp add: shortExplanation_def truncate_short)
  show "shortExplanation apod =
        trimEnd (take 419 (normalizeWhitespace (apod_explanation apod))) @ [ellipsis]"
    if "420 < length (normalizeWhitespace (apod_explanation apod))"
    using that by (simp add: shortExplanation_def truncate_long)
  show "length (shortExplanation apod) \<le> 420"
    using length_truncate [of 420 "normalizeWhitespace (apod_explanation apod)"]
    by (simp add: shortExplanation_def)
  show "normalizeWhitespace (apod_explanation apod) = apod_explanation apod"
    if "normalized (apod_explanation apod)"
    using that by (rule normalized_normalizeWhitespace)
qed

lemma not_ws_a: "\<not> isWhiteSpace 0x61"
  by (simp add: isWhiteSpace_def)

lemma normalized_replicate: "\<not> isWhiteSpace c \<Longrightarrow> normalized (replicate n c)"
proof (induction n)
  case 0
  then show ?case by simp
next
  case (Suc n)
  then show ?case by (cases n) simp_all
qed

lemma trimEnd_replicate: "\<not> isWhiteSpace c \<Longrightarrow> trimEnd (replicate n c) = replicate n c"
  by (simp add: trimEnd_def dropWhile_replicate)

lemma normalized_Explanation: "normalized (js ''Explanation'')"
  by (simp add: js_def isWhiteSpace_def)

theorem explanation_line_witness:
  "shortExplanation (exampleApod (js ''Explanation'')) = js ''Explanation'' \<and>
   shortExplanation (exampleApod (replicate 421 0x61)) = replicate 419 0x61 @ [ellipsis]"
proof -
  have e: "apod_explanation (exampleApod x) = x" for x
    by (simp add: exampleApod_def)
  have s: "normalizeWhitespace (js ''Explanation'') = js ''Explanation''"
    using explanation_line [of "exampleApod (js ''Explanation'')"] normalized_Explanation
    by (simp add: e)
  have l: "normalizeWhitespace (replicate 421 0x61) = replicate 421 0x61"
    using explanation_line [of "exampleApod (replicate 421 0x61)"] normalized_replicate [OF not_ws_a]
    by (simp add: e)
  have "length (normalizeWhitespace (apod_explanation (exampleApod (js ''Explanation'')))) \<le> 420"
    by (simp add: e s) (simp add: js_def)
  moreover have "420 < length (normalizeWhitespace (apod_explanation (exampleApod (replicate 421 0x61))))"
    by (simp add: e l)
  ultimately show ?thesis
    using explanation_line [of "exampleApod (js ''Explanation'')"]
      explanation_line [of "exampleApod (replicate 421 0x61)"]
    by (simp add: e s l trimEnd_replicate [OF not_ws_a])
qed

text \<open>
  C2 as the specification words it fails: an explanation of 421 characters is cut after
  character 419, not after character 420; and an explanation of 4 characters with a
  double space does not appear unchanged.
\<close>

theorem explanation_cut_counterexample:
  "length (apod_explanation (exampleApod (replicate 421 0x61))) = 421 \<and>
   shortExplanation (exampleApod (replicate 421 0x61)) = replicate 419 0x61 @ [ellipsis] \<and>
   shortExplanation (exampleApod (replicate 421 0x61)) \<noteq>
     trimEnd (take 420 (apod_explanation (exampleApod (replicate 421 0x61)))) @ [ellipsis] \<and>
   apod_explanation (exampleApod (js ''a  b'')) = js ''a  b'' \<and>
   shortExplanation (exampleApod (js ''a  b'')) = js ''a b''"
proof -
  have e: "apod_explanation (exampleApod x) = x" for x
    by (simp add: exampleApod_def)
  have n: "normalizeWhitespace (replicate 421 0x61) = replicate 421 0x61"
    by (intro normalized_normalizeWhitespace normalized_replicate not_ws_a)
  have cut: "shortExplanation (exampleApod (replicate 421 0x61)) = replicate 419 0x61 @ [ellipsis]"
    by (simp add: shortExplanation_def e n truncate_long trimEnd_replicate [OF not_ws_a])
  have ne: "shortExplanation (exampleApod (replicate 421 0x61)) \<noteq>
     trimEnd (take 420 (apod_explanation (exampleApod (replicate 421 0x61)))) @ [ellipsis]"
  proof
    assume "shortExplanation (exampleApod (replicate 421 0x61)) =
      trimEnd (take 420 (apod_explanation (exampleApod (replicate 421 0x61)))) @ [ellipsis]"
    then have "length (replicate 419 (0x61::jschar) @ [ellipsis]) =
      length (replicate 420 (0x61::jschar) @ [ellipsis])"
      by (simp add: cut e trimEnd_replicate [OF not_ws_a])
    then show False by simp
  qed
  have two: "shortExplanation (exampleApod (js ''a  b'')) = js ''a b''"
    by code_simp
  show ?thesis using cut ne two by (simp add: e)
qed

section \<open>The look-back bound in a call\<close>

lemma serverError_fails: "isl (attempt (mockPlatform serverErrorNetwork) d k)"
  by (simp add: attempt_def mockPlatform_def serverErrorNetwork_def outcome_def)

text \<open>
  C1 as the specification words it fails: with \<open>maxDaysBack = NaN\<close> the bound is 0, not
  the default 10, and a call whose fetches all fail makes one fetch where the call with
  \<open>maxDaysBack = 10\<close> makes eleven.
\<close>

theorem NaN_bound_counterexample:
  "effectiveMaxDaysBack (Some NaN) = 0 \<and> effectiveMaxDaysBack (Some (Finite 10)) = 10 \<and>
   length (snd (getSpacePictureOfTheDay (mockPlatform serverErrorNetwork) (exampleOptions (Some NaN)))) = 1 \<and>
   length (snd (getSpacePictureOfTheDay (mockPlatform serverErrorNetwork)
                  (exampleOptions (Some (Finite 10))))) = 11"
proof -
  have a: "effectiveMaxDaysBack (Some NaN) = 0" and b: "effectiveMaxDaysBack (Some (Finite 10)) = 10"
    by (simp_all add: effectiveMaxDaysBack_def)
  have f: "\<forall>k. int k \<le> effectiveMaxDaysBack m \<longrightarrow>
             isl (attempt (mockPlatform serverErrorNetwork) (js ''2026-01-22'') k)" for m
    by (simp add: serverError_fails)
  show ?thesis
    unfolding exampleOptions_def walk_exhausted [OF isValid_example f]
    by (simp add: a b)
qed

section \<open>Unread emails\<close>

lemma promiseAll_map:
  "\<forall>x\<in>set xs. \<not> isl (f x) \<Longrightarrow>
   promiseAll r (map f xs) = Inr (map (\<lambda>x. projr (f x)) xs)"
proof -
  assume a: "\<forall>x\<in>set xs. \<not> isl (f x)"
  then have "filter isl (map f xs) = []" by (simp add: filter_empty_conv)
  then show ?thesis by (simp add: promiseAll_def comp_def)
qed

lemma promiseAll_Inr:
  "promiseAll r ps = Inr xs \<Longrightarrow> \<forall>p\<in>set ps. \<not> isl p"
  by (auto simp: promiseAll_def filter_empty_conv split: list.splits)

lemma headerValue_absent:
  "\<forall>h\<in>set hs. h_name h \<noteq> Some n \<Longrightarrow> headerValue n hs = []"
  by (simp add: headerValue_def find_None_iff [THEN iffD2])

text \<open>
  C9: when the listing and every per-message fetch succeed, \<open>getUnreadEmails\<close> returns
  one summary for each listed message, in the order of the listing. The summary of a
  message is built from the message fetched for its id: \<open>emailId\<close> and \<open>threadId\<close> are the
  ids of that message, \<open>sender\<close> and \<open>subject\<close> are the values of its \<open>From\<close> and \<open>Subject\<close>
  headers, and the empty string when it has no such header. When the provider answers
  each fetch with the message asked for, the ids of the summaries are the listed ids.
\<close>

theorem getUnreadEmails_summaries:
  assumes listed: "\<not> isl (messages_list G)"
    and got: "\<forall>m\<in>set (listedMessages G). \<not> isl (messages_get G (msg_id m) Metadata)"
  shows "getUnreadEmails G = Inr (map (\<lambda>m. toSummary (fetchedMessage G m)) (listedMessages G)) \<and>
         length (projr (getUnreadEmails G)) = length (listedMessages G) \<and>
         (\<forall>i<length (listedMessages G).
            emailId (projr (getUnreadEmails G) ! i) = msg_id (fetchedMessage G (listedMessages G ! i)) \<and>
            threadId (projr (getUnreadEmails G) ! i) = msg_threadId (fetchedMessage G (listedMessages G ! i)) \<and>
            sender (projr (getUnreadEmails G) ! i) =
              headerValue (js ''From'') (headersOf (fetchedMessage G (listedMessages G ! i))) \<and>
            subject (projr (getUnreadEmails G) ! i) =
              headerValue (js ''Subject'') (headersOf (fetchedMessage G (listedMessages G ! i))) \<and>
            ((\<forall>h\<in>set (headersOf (fetchedMessage G (listedMessages G ! i))). h_name h \<noteq> Some (js ''From''))
               \<longrightarrow> sender (projr (getUnreadEmails G) ! i) = []) \<and>
            ((\<forall>h\<in>set (headersOf (fetchedMessage G (listedMessages G ! i))). h_name h \<noteq> Some (js ''Subject''))
               \<longrightarrow> subject (projr (getUnreadEmails G) ! i) = [])) \<and>
         ((\<forall>m\<in>set (listedMessages G).
             msg_id (fetchedMessage G m) = msg_id m \<and> msg_threadId (fetchedMessage G m) = msg_threadId m)
            \<longrightarrow> map emailId (projr (getUnreadEmails G)) = map msg_id (listedMessages G) \<and>
                map threadId (projr (getUnreadEmails G)) = map msg_threadId (listedMessages G))"
proof -
  let ?ms = "listedMessages G"
  let ?f = "\<lambda>message. case messages_get G (msg_id message) Metadata of
                            Inl e \<Rightarrow> Inl e
                          | Inr msg \<Rightarrow> Inr (toSummary msg)"
  from listed obtain l where l: "messages_list G = Inr l" by (cases "messages_list G") auto
  have ms: "(case l of None \<Rightarrow> [] | Some ms \<Rightarrow> ms) = ?ms"
    by (simp add: listedMessages_def l split: option.splits)
  have fx: "?f m = Inr (toSummary (fetchedMessage G m))" if "m \<in> set ?ms" for m
    using got that by (cases "messages_get G (msg_id m) Metadata") (auto simp: fetchedMessage_def)
  then have nl: "\<forall>m\<in>set ?ms. \<not> isl (?f m)" by simp
  have "promiseAll (first_rejection G) (map ?f ?ms) = Inr (map (\<lambda>m. projr (?f m)) ?ms)"
    by (rule promiseAll_map [OF nl])
  also have "map (\<lambda>m. projr (?f m)) ?ms = map (\<lambda>m. toSummary (fetchedMessage G m)) ?ms"
    by (rule map_cong) (simp_all add: fx)
  finally have run: "getUnreadEmails G = Inr (map (\<lambda>m. toSummary (fetchedMessage G m)) ?ms)"
    by (cases "?ms = []") (simp_all add: getUnreadEmails_def l ms Let_def)
  have fields: "emailId (toSummary msg) = msg_id msg" "threadId (toSummary msg) = msg_threadId msg"
    "sender (toSummary msg) = headerValue (js ''From'') (headersOf msg)"
    "subject (toSummary msg) = headerValue (js ''Subject'') (headersOf msg)" for msg
    by (simp_all add: toSummary_def Let_def)
  show ?thesis
    unfolding run
    by (auto simp: fields headerValue_absent)
qed

lemma js_eq_examples: "js ''msg1'' \<noteq> js ''msg2''"
  by (simp add: js_def)

theorem getUnreadEmails_summaries_witness:
  "getUnreadEmails exampleGmail =
     Inr [\<lparr> sender = js ''sender@example.com'', subject = js ''Test Subject 1'',
            body = js ''This is a test email snippet...'', emailId = js ''msg1'',
            threadId = js ''thread1'' \<rparr>,
          \<lparr> sender = [], subject = js ''Re: Hello'', body = [], emailId = js ''msg2'',
            threadId = js ''thread2'' \<rparr>]"
proof -
  have l: "\<not> isl (messages_list exampleGmail)"
    by (simp add: exampleGmail_def)
  have ms: "listedMessages exampleGmail =
      [\<lparr> msg_id = js ''msg1'', msg_threadId = js ''thread1'', msg_snippet = None, msg_payload = None \<rparr>,
       \<lparr> msg_id = js ''msg2'', msg_threadId = js ''thread2'', msg_snippet = None, msg_payload = None \<rparr>]"
    by (simp add: listedMessages_def exampleGmail_def)
  have g: "\<forall>m\<in>set (listedMessages exampleGmail). \<not> isl (messages_get exampleGmail (msg_id m) Metadata)"
    by (simp add: ms) (simp add: exampleGmail_def exampleGet_def)
  have f1: "fetchedMessage exampleGmail
      \<lparr> msg_id = js ''msg1'', msg_threadId = js ''thread1'', msg_snippet = None, msg_payload = None \<rparr>
      = exampleMessage1"
    by (simp add: fetchedMessage_def exampleGmail_def exampleGet_def)
  have f2: "fetchedMessage exampleGmail
      \<lparr> msg_id = js ''msg2'', msg_threadId = js ''thread2'', msg_snippet = None, msg_payload = None \<rparr>
      = exampleMessage2"
    by (simp add: fetchedMessage_def exampleGmail_def exampleGet_def js_eq_examples [symmetric])
  have s1: "toSummary exampleMessage1 =
      \<lparr> sender = js ''sender@example.com'', subject = js ''Test Subject 1'',
            body = js ''This is a test email snippet...'', emailId = js ''msg1'',
            threadId = js ''thread1'' \<rparr>"
    by (simp add: toSummary_def exampleMessage1_def headersOf_def headerValue_def header_def Let_def)
       (simp add: js_def)
  have s2: "toSummary exampleMessage2 =
      \<lparr> sender = [], subject = js ''Re: Hello'', body = [], emailId = js ''msg2'',
            threadId = js ''thread2'' \<rparr>"
    by (simp add: toSummary_def exampleMessage2_def headersOf_def headerValue_def header_def Let_def)
       (simp add: js_def)
  from getUnreadEmails_summaries [OF l g, THEN conjunct1] show ?thesis
    by (simp add: ms f1 f2 s1 s2)
qed

section \<open>The create_draft_reply tool\<close>

text \<open>
  C10: a \<open>create_draft_reply\<close> call whose \<open>emailId\<close> or \<open>replyBody\<close> is missing or is the
  empty string is rejected with the error \<open>emailId and replyBody are required\<close>, and no
  call is made to the provider. The same holds for the \<open>create_draft_reply\<close> case of the
  earlier \<open>registerTools\<close> whenever the call carries an arguments object.
\<close>

theorem create_draft_reply_requires_arguments:
  assumes "\<not> truthy (Option.bind args arg_emailId) \<or> \<not> truthy (Option.bind args arg_replyBody)"
  shows "createDraftReplyHandler G args = (Inl requiredError, []) \<and>
         callCreateDraftReply G args = (ErrorContent (js ''emailId and replyBody are required''), []) \<and>
         (args \<noteq> None \<longrightarrow> createDraftReplyCase G args = (Inl requiredError, []))"
proof -
  have h: "createDraftReplyHandler G args = (Inl requiredError, [])"
    using assms
    by (cases args)
       (auto simp: createDraftReplyHandler_def truthy_def split: option.splits)
  have c: "args \<noteq> None \<longrightarrow> createDraftReplyCase G args = (Inl requiredError, [])"
    using assms
    by (cases args)
       (auto simp: createDraftReplyCase_def truthy_def split: option.splits)
  show ?thesis using h c by (simp add: callCreateDraftReply_def requiredError_def)
qed

theorem create_draft_reply_requires_arguments_witness:
  "createDraftReplyHandler exampleGmail (Some \<lparr> arg_emailId = Some (js ''msg1''), arg_replyBody = Some [] \<rparr>)
     = (Inl requiredError, []) \<and>
   createDraftReplyHandler exampleGmail None = (Inl requiredError, []) \<and>
   createDraftReplyCase exampleGmail (Some \<lparr> arg_emailId = Some [], arg_replyBody = Some (js ''Hello'') \<rparr>)
     = (Inl requiredError, [])"
  using create_draft_reply_requires_arguments
          [of "Some \<lparr> arg_emailId = Some (js ''msg1''), arg_replyBody = Some [] \<rparr>" exampleGmail]
        create_draft_reply_requires_arguments [of None exampleGmail]
        create_draft_reply_requires_arguments
          [of "Some \<lparr> arg_emailId = Some [], arg_replyBody = Some (js ''Hello'') \<rparr>" exampleGmail]
  by (simp add: truthy_def)

lemma earlier_case_without_arguments:
  "createDraftReplyCase G None = (Inl destructureTypeError, [])"
  by (simp add: createDraftReplyCase_def)

lemma handler_reaches_createDraftReply:
  "eid \<noteq> [] \<Longrightarrow> rb \<noteq> [] \<Longrightarrow>
   snd (createDraftReplyHandler G (Some \<lparr> arg_emailId = Some eid, arg_replyBody = Some rb \<rparr>))
     = snd (createDraftReply G eid rb)"
  by (simp add: createDraftReplyHandler_def split: prod.splits sum.splits)

section \<open>The serialized reply\<close>

lemma join_append_two:
  "ls \<noteq> [] \<Longrightarrow> join sep (ls @ [a, b]) = join sep ls @ sep @ a @ sep @ b"
  by (induction sep ls rule: join.induct) simp_all

lemma headerLines_nonempty: "headerLines headers \<noteq> []"
  by (simp add: headerLines_def Let_def)










lemma headerValue_examples:
  "headerValue (js ''From'') (headersOf exampleMessage1) = js ''sender@example.com''"
  "headerValue (js ''Subject'') (headersOf exampleMessage1) = js ''Test Subject 1''"
  "headerValue (js ''Message-ID'') (headersOf exampleMessage1) = js ''<original-message-id>''"
  by (simp_all add: headerValue_def headersOf_def exampleMessage1_def header_def)
     (simp_all add: js_def)

lemma replySubject_examples:
  "replySubject (js ''Re: X'') = js ''Re: X''"
  "replySubject (js ''X'') = js ''Re: X''"
  "replySubject (js ''Test Subject 1'') = js ''Re: Test Subject 1''"
  by (simp_all add: replySubject_def startsWith_def js_def)

lemma toEmail_examples:
  "toEmail (js ''sender@example.com'') = js ''sender@example.com''"
  by (simp add: toEmail_def js_def)

text \<open>The reply to the first example message, as it is serialized.\<close>

lemma rawEmail_example:
  "rawEmail (headersOf exampleMessage1) (js ''This is my reply'') =
     js ''To: sender@example.com'' @ CRLF @
     js ''Subject: Re: Test Subject 1'' @ CRLF @
     js ''In-Reply-To: <original-message-id>'' @ CRLF @
     js ''References: <original-message-id>'' @ CRLF @
     js ''Content-Type: text/plain; charset=utf-8'' @ CRLF @
     CRLF @
     js ''This is my reply''"
proof -
  have m: "js ''<original-message-id>'' \<noteq> []" by (simp add: js_def)
  have "headerLines (headersOf exampleMessage1) =
      [js ''To: '' @ js ''sender@example.com'', js ''Subject: '' @ js ''Re: Test Subject 1'',
       js ''In-Reply-To: '' @ js ''<original-message-id>'',
       js ''References: '' @ js ''<original-message-id>'',
       js ''Content-Type: text/plain; charset=utf-8'']"
    by (simp add: headerLines_def Let_def headerValue_examples replySubject_examples toEmail_examples m)
  then show ?thesis
    by (simp add: rawEmail_def emailLines_def js_def)
qed



text \<open>
  Read back line by line, the serialized reply is the header lines, one empty line, and
  the lines of the body, provided the header values of the original message have no
  carriage return in them.
\<close>

lemma splitLines_line:
  "0x0D \<notin> set l \<Longrightarrow> splitLines (l @ CRLF @ rest) = l # splitLines rest"
proof (induction l)
  case Nil
  then show ?case by (simp add: CRLF_def)
next
  case (Cons c l)
  then have c: "c \<noteq> 0x0D" and IH: "splitLines (l @ CRLF @ rest) = l # splitLines rest" by auto
  obtain d ds where d: "l @ CRLF @ rest = d # ds"
    by (cases "l @ CRLF @ rest") (auto simp: CRLF_def)
  show ?case using c IH d by simp
qed

lemma splitLines_join:
  "ls \<noteq> [] \<Longrightarrow> \<forall>l\<in>set ls. 0x0D \<notin> set l \<Longrightarrow>
   splitLines (join CRLF ls @ CRLF @ rest) = ls @ splitLines rest"
proof (induction CRLF ls rule: join.induct)
  case 1
  then show ?case by simp
next
  case (2 l)
  then show ?case by (simp add: splitLines_line)
next
  case (3 l v va)
  then show ?case by (simp add: splitLines_line)
qed

lemma angleGroupAt_subset: "angleGroupAt cs = Some g \<Longrightarrow> set g \<subseteq> set cs"
proof -
  assume a: "angleGroupAt cs = Some g"
  let ?run = "takeWhile (\<lambda>c. \<not> isLineTerminator c) cs"
  from a have g: "g = take 1 ?run @ rev (drop 1 (dropWhile (\<lambda>c. c \<noteq> 0x3E) (rev (drop 1 ?run))))"
    by (simp add: angleGroupAt_def Let_def split: if_splits)
  have r: "set ?run \<subseteq> set cs" by (auto dest: set_takeWhileD)
  have "set (take 1 ?run) \<subseteq> set ?run" by (rule set_take_subset)
  moreover have "set (rev (drop 1 (dropWhile (\<lambda>c. c \<noteq> 0x3E) (rev (drop 1 ?run))))) \<subseteq> set ?run"
    by (auto dest!: in_set_dropD set_dropWhileD)
  ultimately show ?thesis using r unfolding g by auto
qed

lemma matchAngle_subset: "matchAngle s = Some g \<Longrightarrow> set g \<subseteq> set s"
proof (induction s)
  case Nil
  then show ?case by simp
next
  case (Cons c cs)
  then show ?case
    by (auto split: if_splits option.splits dest: angleGroupAt_subset)
qed

lemma toEmail_subset: "set (toEmail f) \<subseteq> set f"
  by (auto simp: toEmail_def split: option.splits dest: matchAngle_subset)

lemma replySubject_CR: "0x0D \<notin> set s \<Longrightarrow> 0x0D \<notin> set (replySubject s)"
  by (simp add: replySubject_def js_def)

lemma headerLines_CR:
  assumes "0x0D \<notin> set (headerValue (js ''From'') headers)"
    and "0x0D \<notin> set (headerValue (js ''Subject'') headers)"
    and "0x0D \<notin> set (headerValue (js ''Message-ID'') headers)"
  shows "\<forall>l\<in>set (headerLines headers). 0x0D \<notin> set l"
proof -
  have "0x0D \<notin> set (toEmail (headerValue (js ''From'') headers))"
    using assms(1) toEmail_subset by blast
  moreover note replySubject_CR [OF assms(2)] assms(3)
  moreover have "0x0D \<notin> set (js ''To: '')" "0x0D \<notin> set (js ''Subject: '')"
    "0x0D \<notin> set (js ''In-Reply-To: '')" "0x0D \<notin> set (js ''References: '')"
    "0x0D \<notin> set (js ''Content-Type: text/plain; charset=utf-8'')"
    by (simp_all add: js_def)
  ultimately show ?thesis
    by (auto simp: headerLines_def Let_def)
qed

lemma splitLines_rawEmail:
  assumes "0x0D \<notin> set (headerValue (js ''From'') headers)"
    and "0x0D \<notin> set (headerValue (js ''Subject'') headers)"
    and "0x0D \<notin> set (headerValue (js ''Message-ID'') headers)"
  shows "splitLines (rawEmail headers replyBody) = headerLines headers @ [] # splitLines replyBody"
proof -
  have "rawEmail headers replyBody = join CRLF (headerLines headers) @ CRLF @ ([] @ CRLF @ replyBody)"
    by (simp add: rawEmail_def emailLines_def join_append_two [OF headerLines_nonempty])
  moreover have "splitLines ([] @ CRLF @ replyBody) = [] # splitLines replyBody"
    by (rule splitLines_line) simp
  ultimately show ?thesis
    by (simp only: splitLines_join [OF headerLines_nonempty headerLines_CR [OF assms]])
qed

section \<open>The draft payload\<close>
















lemma stripPadding_Nil: "stripPadding [] = []"
  by (simp add: stripPadding_def)



















lemma createDraftReply_calls:
  "messages_get G eid Full = Inr msg \<Longrightarrow>
   snd (createDraftReply G eid replyBody) =
     [GetCall eid Full, CreateDraftCall (msg_threadId msg) (encodedEmail (headersOf msg) replyBody)]"
  by (simp add: createDraftReply_def Let_def)


section \<open>Date validation\<close>

lemma dateWalk_log_grows:
  "length fetched \<le> length (snd (dateWalk P req m i cur failures fetched))"
proof (induction P req m i cur failures fetched rule: dateWalk.induct)
  case (1 P requested maxDaysBack i current failures fetched)
  show ?case
  proof (cases "i \<le> maxDaysBack")
    case False
    then show ?thesis by (simp add: dateWalk_done)
  next
    case True
    show ?thesis
    proof (cases "outcome (fetch P (length fetched) (Some (formatDateUTC current)))")
      case (Inl reason)
      have "length (fetched @ [Some (formatDateUTC current)]) \<le>
        length (snd (dateWalk P requested maxDaysBack (i + 1) (addDaysUTC current (- 1))
                       (failures @ [(formatDateUTC current, reason)])
                       (fetched @ [Some (formatDateUTC current)])))"
        by (rule "1.IH" [OF True refl]) (simp_all add: fetchApod_Some_format Inl)
      then show ?thesis by (simp add: dateWalk_fail_step [OF True Inl])
    next
      case (Inr apod)
      then show ?thesis by (simp add: dateWalk_success_step [OF True Inr])
    qed
  qed
qed

lemma dateWalk_fetches:
  "i \<le> m \<Longrightarrow> snd (dateWalk P req m i cur failures []) \<noteq> []"
proof (cases "outcome (fetch P (length ([]::fetchLog)) (Some (formatDateUTC cur)))")
  case (Inl reason)
  assume i: "i \<le> m"
  have "length ([] @ [Some (formatDateUTC cur)]) \<le>
        length (snd (dateWalk P req m (i + 1) (addDaysUTC cur (- 1))
                       (failures @ [(formatDateUTC cur, reason)]) ([] @ [Some (formatDateUTC cur)])))"
    by (rule dateWalk_log_grows)
  then show ?thesis unfolding dateWalk_fail_step [OF i Inl] by auto
next
  case (Inr apod)
  assume i: "i \<le> m"
  show ?thesis by (simp add: dateWalk_success_step [OF i Inr])
qed

lemma dateRegex_example: "\<not> dateRegex (js ''01-22-2026'')"
  by (simp add: dateRegex_def js_def isDigit_def)

text \<open>
  C8 (as the source has it): when the \<open>date\<close> argument does not match \<open>YYYY-MM-DD\<close>
  literally, or the \<open>Date\<close> constructor of the platform makes an invalid date of it,
  \<open>getSpacePictureOfTheDay\<close> fails with \<open>InvalidDateFormatError\<close> at once and the log of
  fetches is empty, whatever \<open>maxDaysBack\<close> is and whatever the network would answer. In
  every other case, that is, for every date the constructor accepts, a fetch is made.
\<close>

theorem invalid_date_rejected:
  "(\<not> dateRegex d \<or> dateCtor P (d @ js ''T00:00:00Z'') = None \<longrightarrow>
      getSpacePictureOfTheDay P (Some \<lparr> opt_date = Some d, opt_maxDaysBack = m \<rparr>)
        = (Inl InvalidDateFormatError, [])) \<and>
   (dateRegex d \<and> dateCtor P (d @ js ''T00:00:00Z'') \<noteq> None \<longrightarrow>
      snd (getSpacePictureOfTheDay P (Some \<lparr> opt_date = Some d, opt_maxDaysBack = m \<rparr>)) \<noteq> [])"
proof (intro conjI impI)
  assume "\<not> dateRegex d \<or> dateCtor P (d @ js ''T00:00:00Z'') = None"
  then show "getSpacePictureOfTheDay P (Some \<lparr> opt_date = Some d, opt_maxDaysBack = m \<rparr>)
        = (Inl InvalidDateFormatError, [])"
    by (auto simp: getSpacePictureOfTheDay_def isValidDateFormat_def)
next
  assume "dateRegex d \<and> dateCtor P (d @ js ''T00:00:00Z'') \<noteq> None"
  then have "isValidDateFormat P d" by (simp add: isValidDateFormat_def)
  then show "snd (getSpacePictureOfTheDay P (Some \<lparr> opt_date = Some d, opt_maxDaysBack = m \<rparr>)) \<noteq> []"
    by (simp add: getSpacePictureOfTheDay_walk dateWalk_fetches [OF effectiveMaxDaysBack_nonneg])
qed

lemma month13_example:
  "dateRegex (js ''2026-13-01'')"
  "dateCtor (mockPlatform rs) (js ''2026-13-01'' @ js ''T00:00:00Z'') = None"
  by code_simp+

lemma feb30_example:
  "dateRegex (js ''2026-02-30'')"
  "\<not> realUTCDate (js ''2026-02-30'')"
  "isValidDateFormat (mockPlatform rs) (js ''2026-02-30'')"
  "formatDateUTC (parseDateUTC (mockPlatform rs) (js ''2026-02-30'')) = js ''2026-03-02''"
  by code_simp+

theorem invalid_date_rejected_witness:
  "getSpacePictureOfTheDay (mockPlatform serverErrorNetwork)
      (Some \<lparr> opt_date = Some (js ''01-22-2026''), opt_maxDaysBack = None \<rparr>)
     = (Inl InvalidDateFormatError, []) \<and>
   getSpacePictureOfTheDay (mockPlatform serverErrorNetwork)
      (Some \<lparr> opt_date = Some (js ''2026-13-01''), opt_maxDaysBack = None \<rparr>)
     = (Inl InvalidDateFormatError, []) \<and>
   snd (getSpacePictureOfTheDay (mockPlatform serverErrorNetwork)
      (Some \<lparr> opt_date = Some (js ''2026-01-22''), opt_maxDaysBack = None \<rparr>)) \<noteq> []"
proof -
  have v: "dateRegex (js ''2026-01-22'') \<and>
           dateCtor (mockPlatform serverErrorNetwork) (js ''2026-01-22'' @ js ''T00:00:00Z'') \<noteq> None"
    using isValid_example [of serverErrorNetwork] by (simp add: isValidDateFormat_def)
  show ?thesis
    using invalid_date_rejected [of "js ''01-22-2026''" "mockPlatform serverErrorNetwork" None]
      invalid_date_rejected [of "js ''2026-13-01''" "mockPlatform serverErrorNetwork" None]
      invalid_date_rejected [of "js ''2026-01-22''" "mockPlatform serverErrorNetwork" None]
      dateRegex_example month13_example(2) [of serverErrorNetwork] v
    by simp
qed

text \<open>
  C8 as the specification words it fails: \<open>2026-02-30\<close> matches the pattern and is no
  day of the calendar, but a \<open>Date\<close> constructor that lets the day run over into March
  accepts it; the call then does not fail with \<open>InvalidDateFormatError\<close> and fetches the
  entry of 2026-03-02.
\<close>

theorem feb30_accepted_counterexample:
  "dateRegex (js ''2026-02-30'') \<and> \<not> realUTCDate (js ''2026-02-30'') \<and>
   \<not> isl (fst (getSpacePictureOfTheDay (mockPlatform dayAheadNetwork)
                  (Some \<lparr> opt_date = Some (js ''2026-02-30''), opt_maxDaysBack = None \<rparr>))) \<and>
   snd (getSpacePictureOfTheDay (mockPlatform dayAheadNetwork)
          (Some \<lparr> opt_date = Some (js ''2026-02-30''), opt_maxDaysBack = None \<rparr>))
     = [Some (js ''2026-03-02'')]"
proof -
  let ?P = "mockPlatform dayAheadNetwork"
  let ?cur = "parseDateUTC ?P (js ''2026-02-30'')"
  have ok: "outcome (fetch ?P (length ([]::fetchLog)) (Some (formatDateUTC ?cur))) =
      Inr \<lparr> apod_date = js ''2026-01-23'', apod_explanation = js ''Explanation'',
               apod_media_type = Some (js ''image''), apod_title = js ''Previous Day APOD'',
               apod_url = js ''https://example.com/prev.jpg'',
               apod_hdurl = None, apod_copyright = None \<rparr>"
    by (simp add: mockPlatform_def dayAheadNetwork_def)
       (rule outcome_exampleJson; simp add: js_def)
  have "getSpacePictureOfTheDay ?P (Some \<lparr> opt_date = Some (js ''2026-02-30''), opt_maxDaysBack = None \<rparr>) =
          dateWalk ?P (js ''2026-02-30'') (effectiveMaxDaysBack None) 0 ?cur [] []"
    by (simp add: getSpacePictureOfTheDay_walk [OF feb30_example(3)])
  also note dateWalk_success_step [OF effectiveMaxDaysBack_nonneg ok]
  finally show ?thesis
    by (simp add: feb30_example)
qed

end
